theory Spec2Isabelle
  imports Complex_Main "HOL-Library.AList" "HOL-Library.Sublist" "HOL-Library.Log_Nat"
begin

section \<open>Values and exceptions\<close>

text \<open>
  The batch job of \<^verbatim>\<open>run.py\<close> reads a YAML configuration and a CSV table, computes a
  rolling mean of the \<^verbatim>\<open>close\<close> column, a 0/1 signal and the signal rate, and writes one
  JSON report.

  A Python exception is its class together with its message (\<^verbatim>\<open>str(e)\<close> goes into the
  error report). Only the classes that the job can meet are listed.
\<close>

datatype exn_class =
    FileNotFoundError | PermissionError | IsADirectoryError
  | ValueError | TypeError | KeyError | OverflowError
  | YAMLError | DataError

type_synonym exn = "exn_class \<times> string"

definition quoted :: "string \<Rightarrow> string" where
  \<comment> \<open>a text between single quotes, as \<^verbatim>\<open>repr\<close> shows it\<close>
  "quoted s = [CHR 0x27] @ s @ [CHR 0x27]"

definition raised :: "exn + 'a \<Rightarrow> exn_class option" where
  \<comment> \<open>the class of the exception, if one was raised\<close>
  "raised r = (case r of Inl e \<Rightarrow> Some (fst e) | Inr x \<Rightarrow> None)"

text \<open>
  The Python values that the reports hold and that \<^verbatim>\<open>yaml.safe_load\<close> returns for plain
  documents. The configuration is never type-checked by the job, so every kind of
  document reaches the code. A YAML timestamp (\<^verbatim>\<open>version: 2024-01-01\<close> is one) becomes a
  \<^verbatim>\<open>datetime.date\<close>, which \<^verbatim>\<open>json\<close> cannot serialise. Keys of mappings are taken to be
  strings; sets and binary values, which need explicit tags, are left out.

  A \<^verbatim>\<open>float64\<close> is the rational it stands for, \<open>None\<close> standing for NaN. Comparing two
  doubles and converting an integer to a double are exact here as they are in the
  machine. Sums and quotients are the exact ones: the machine rounds each of them to a
  double, so a computed mean or rate can differ from the machine's in its last bits;
  infinities are not represented.
\<close>

type_synonym float64 = "rat option"

datatype pyval =
    PNone
  | PBool bool
  | PInt int
  | PFloat float64
  | PStr string
  | PDate string
  | PList "pyval list"
  | PDict "(string \<times> pyval) list"

fun type_name :: "pyval \<Rightarrow> string" where
  "type_name PNone = ''NoneType''"
| "type_name (PBool b) = ''bool''"
| "type_name (PInt n) = ''int''"
| "type_name (PFloat x) = ''float''"
| "type_name (PStr s) = ''str''"
| "type_name (PDate d) = ''datetime.date''"
| "type_name (PList xs) = ''list''"
| "type_name (PDict kvs) = ''dict''"

section \<open>The table\<close>

text \<open>
  A column of a pandas \<^verbatim>\<open>DataFrame\<close> with its dtype: \<^verbatim>\<open>float64\<close> (a missing cell is NaN),
  \<^verbatim>\<open>int64\<close>, or \<^verbatim>\<open>object\<close> (text). The frame is its index length and its named columns in
  order.
\<close>

datatype column =
    Float64 "float64 list"
  | Int64 "int list"
  | Object "string list"

record dataframe =
  nrows :: nat
  columns :: "(string \<times> column) list"

fun column_len :: "column \<Rightarrow> nat" where
  "column_len (Float64 xs) = length xs"
| "column_len (Int64 xs) = length xs"
| "column_len (Object xs) = length xs"

definition wf_dataframe :: "dataframe \<Rightarrow> bool" where
  "wf_dataframe df = list_all (\<lambda>(name, c). column_len c = nrows df) (columns df)"

definition df_empty :: "dataframe \<Rightarrow> bool" where
  \<comment> \<open>\<^verbatim>\<open>df.empty\<close>: some axis has length 0\<close>
  "df_empty df = (nrows df = 0 \<or> columns df = [])"

definition df_getitem :: "dataframe \<Rightarrow> string \<Rightarrow> exn + column" where
  \<comment> \<open>\<^verbatim>\<open>df[name]\<close>\<close>
  "df_getitem df name =
     (case map_of (columns df) name of
        None \<Rightarrow> Inl (KeyError, quoted name)
      | Some c \<Rightarrow> Inr c)"

definition df_setitem :: "dataframe \<Rightarrow> string \<Rightarrow> column \<Rightarrow> dataframe" where
  \<comment> \<open>\<^verbatim>\<open>df[name] = c\<close>: replaces the column in place, or appends it\<close>
  "df_setitem df name c = df\<lparr>columns := AList.update name c (columns df)\<rparr>"

section \<open>Rolling mean\<close>

text \<open>
  \<^verbatim>\<open>Series.rolling(window=w)\<close> accepts only an integer that is not negative, and raises
  \<^verbatim>\<open>ValueError\<close> for anything else (a bool, a float or a string are not integers to
  pandas).
\<close>

definition rolling_window :: "pyval \<Rightarrow> exn + int" where
  "rolling_window w =
     (case w of
        PInt n \<Rightarrow> if n < 0 then Inl (ValueError, ''window must be an integer 0 or greater'')
                  else Inr n
      | _ \<Rightarrow> Inl (ValueError, ''window must be an integer 0 or greater''))"

text \<open>
  An integer becomes the nearest double: beyond 53 bits the low bits are rounded away, a
  tie going to the even neighbour. (No \<^verbatim>\<open>int64\<close> is large enough to become infinite.)
\<close>

definition float64_of_int :: "int \<Rightarrow> rat" where
  "float64_of_int n =
     (let a = \<bar>n\<bar>; e = bitlen a - 53
      in if e \<le> 0 then of_int n
         else let u = 2 ^ nat e; q = a div u; r = a mod u;
                  m = (if 2 * r < u then q else if u < 2 * r then q + 1
                       else if even q then q else q + 1)
              in of_int (sgn n * m * u))"

text \<open>
  \<^verbatim>\<open>.mean()\<close> and the comparison need numbers: an \<^verbatim>\<open>int64\<close> column is converted to
  \<^verbatim>\<open>float64\<close> first, an \<^verbatim>\<open>object\<close> column raises \<^verbatim>\<open>DataError\<close> in \<^verbatim>\<open>.mean()\<close>.
\<close>

fun prep_values :: "column \<Rightarrow> exn + float64 list" where
  "prep_values (Float64 xs) = Inr xs"
| "prep_values (Int64 xs) = Inr (map (\<lambda>n. Some (float64_of_int n)) xs)"
| "prep_values (Object xs) = Inl (DataError, ''No numeric types to aggregate'')"

text \<open>
  The fixed window of row \<open>i\<close> is \<open>[start, end)\<close> with \<open>end = i + 1\<close> (and \<open>end = i\<close> for
  the window size 0, which the indexer offsets by one) and \<open>start = end - w\<close> clipped at 0
  (truncating subtraction on \<open>nat\<close> is the clip).
\<close>

definition window_end :: "nat \<Rightarrow> nat \<Rightarrow> nat" where
  "window_end w i = (if w = 0 then i else i + 1)"

definition window_start :: "nat \<Rightarrow> nat \<Rightarrow> nat" where
  "window_start w i = window_end w i - w"

definition slice :: "'a list \<Rightarrow> nat \<Rightarrow> nat \<Rightarrow> 'a list" where
  \<comment> \<open>\<^verbatim>\<open>values[a:b]\<close>\<close>
  "slice xs a b = take (b - a) (drop a xs)"

text \<open>
  The aggregation keeps the number of observations and their sum while the window slides:
  values leaving the window are removed, values entering it are added, and NaN is
  counted on neither side. A row with fewer than \<open>min_periods\<close> observations, or with none,
  is NaN; \<open>min_periods\<close> defaults to the window size. The sums and the quotient are
  exact here (the compensated summation and the sign guards of the library, which only
  repair rounding, are left out), so the value of a mean is the machine's up to its
  rounding; which rows have a mean at all is the same.
\<close>

fun add_mean :: "float64 \<Rightarrow> nat \<times> rat \<Rightarrow> nat \<times> rat" where
  "add_mean (Some v) (nobs, sum_x) = (nobs + 1, sum_x + v)"
| "add_mean None st = st"

fun remove_mean :: "float64 \<Rightarrow> nat \<times> rat \<Rightarrow> nat \<times> rat" where
  "remove_mean (Some v) (nobs, sum_x) = (nobs - 1, sum_x - v)"
| "remove_mean None st = st"

definition calc_mean :: "nat \<Rightarrow> nat \<times> rat \<Rightarrow> float64" where
  "calc_mean minp st =
     (case st of (nobs, sum_x) \<Rightarrow>
        if minp \<le> nobs \<and> 0 < nobs then Some (sum_x / of_nat nobs) else None)"

definition roll_step ::
  "float64 list \<Rightarrow> nat \<Rightarrow> nat \<Rightarrow> (nat \<times> rat) \<times> float64 list \<Rightarrow> (nat \<times> rat) \<times> float64 list" where
  "roll_step vals w i acc =
     (case acc of (st, out) \<Rightarrow>
        let s = window_start w i; e = window_end w i;
            st' = (if i = 0 \<or> window_end w (i - 1) \<le> s
                   then fold add_mean (slice vals s e) (0, 0)
                   else fold add_mean (slice vals (window_end w (i - 1)) e)
                          (fold remove_mean (slice vals (window_start w (i - 1)) s) st))
        in (st', out @ [calc_mean w st']))"

definition roll_mean :: "float64 list \<Rightarrow> nat \<Rightarrow> float64 list" where
  "roll_mean vals w = snd (fold (roll_step vals w) [0..<length vals] ((0, 0), []))"

text \<open>
  \<^verbatim>\<open>rolling\<close> itself takes any window that passed the validation. The bounds of the
  windows are \<^verbatim>\<open>int64\<close> numbers, computed when the mean is taken of a column that has
  rows: a window size of \<open>2\<^sup>6\<^sup>3\<close> or more does not fit and raises \<^verbatim>\<open>OverflowError\<close>.
\<close>

function show_int :: "int \<Rightarrow> string" where
  \<comment> \<open>a number that is not negative, in decimal\<close>
  "show_int n =
     (if n < 10 then [''0123456789'' ! nat n]
      else show_int (n div 10) @ [''0123456789'' ! nat (n mod 10)])"
  by pat_completeness auto
termination
  by (relation "measure nat") auto

definition window_bounds_check :: "int \<Rightarrow> exn option" where
  "window_bounds_check w =
     (if 2 ^ 63 \<le> w
      then Some (OverflowError, ''Python integer '' @ show_int w @ '' out of bounds for int64'')
      else None)"

definition rolling_mean :: "column \<Rightarrow> pyval \<Rightarrow> exn + column" where
  \<comment> \<open>\<^verbatim>\<open>c.rolling(window=window).mean()\<close>: the window is validated first\<close>
  "rolling_mean c window =
     (case rolling_window window of
        Inl e \<Rightarrow> Inl e
      | Inr w \<Rightarrow>
          (case prep_values c of
             Inl e \<Rightarrow> Inl e
           | Inr vals \<Rightarrow>
               if vals = [] then Inr (Float64 [])
               else (case window_bounds_check w of
                       Some e \<Rightarrow> Inl e
                     | None \<Rightarrow> Inr (Float64 (roll_mean vals (nat w))))))"

section \<open>Signal and signal rate\<close>

text \<open>
  \<^verbatim>\<open>a > b\<close> on two numeric columns compares row by row; a comparison with NaN on either
  side is false and raises nothing. A text column cannot be compared with numbers.
\<close>

definition float_gt :: "float64 \<Rightarrow> float64 \<Rightarrow> bool" where
  "float_gt a b = (case a of None \<Rightarrow> False | Some x \<Rightarrow> (case b of None \<Rightarrow> False | Some y \<Rightarrow> y < x))"

definition series_gt :: "column \<Rightarrow> column \<Rightarrow> exn + bool list" where
  "series_gt a b =
     (case prep_values a of
        Inl e \<Rightarrow>
          Inl (TypeError, quoted ''>'' @ '' not supported between instances of '' @
                 quoted ''str'' @ '' and '' @ quoted ''float'')
      | Inr xs \<Rightarrow>
          (case prep_values b of
             Inl e \<Rightarrow>
               Inl (TypeError, quoted ''>'' @ '' not supported between instances of '' @
                      quoted ''float'' @ '' and '' @ quoted ''str'')
           | Inr ys \<Rightarrow> Inr (map (\<lambda>(x, y). float_gt x y) (zip xs ys))))"

definition astype_int :: "bool list \<Rightarrow> column" where
  "astype_int bs = Int64 (map (\<lambda>b. if b then 1 else 0) bs)"

definition nobs_of :: "float64 list \<Rightarrow> nat" where
  "nobs_of xs = length (filter (\<lambda>x. x \<noteq> None) xs)"

definition sum_of :: "float64 list \<Rightarrow> rat" where
  "sum_of xs = sum_list (map (\<lambda>x. case x of None \<Rightarrow> 0 | Some v \<Rightarrow> v) xs)"

fun series_mean :: "column \<Rightarrow> exn + float64" where
  \<comment> \<open>\<^verbatim>\<open>c.mean()\<close>: NaN is skipped, and the mean of nothing is NaN\<close>
  "series_mean (Int64 xs) =
     Inr (if xs = [] then None else Some (of_int (sum_list xs) / of_nat (length xs)))"
| "series_mean (Float64 xs) =
     Inr (if nobs_of xs = 0 then None else Some (sum_of xs / of_nat (nobs_of xs)))"
| "series_mean (Object xs) =
     Inl (TypeError, ''Could not convert string '' @ quoted (concat xs) @ '' to numeric'')"

text \<open>
  Lines 90 to 94 of \<^verbatim>\<open>main\<close>, on the frame that holds the rolling mean: the signal column
  and the signal rate.
\<close>

definition signal_stage :: "dataframe \<Rightarrow> exn + dataframe \<times> float64" where
  "signal_stage df1 =
     (case df_getitem df1 ''close'' of Inl e \<Rightarrow> Inl e | Inr close1 \<Rightarrow>
     (case df_getitem df1 ''rolling_mean'' of Inl e \<Rightarrow> Inl e | Inr rm1 \<Rightarrow>
     (case series_gt close1 rm1 of Inl e \<Rightarrow> Inl e | Inr gt \<Rightarrow>
      let df2 = df_setitem df1 ''signal'' (astype_int gt) in
     (case df_getitem df2 ''signal'' of Inl e \<Rightarrow> Inl e | Inr signal \<Rightarrow>
     (case series_mean signal of Inl e \<Rightarrow> Inl e | Inr signal_rate \<Rightarrow>
        Inr (df2, signal_rate))))))"

text \<open>Lines 85 to 94 of \<^verbatim>\<open>main\<close>: the frame with its two new columns, and the signal rate.\<close>

definition signal_computer :: "dataframe \<Rightarrow> pyval \<Rightarrow> exn + dataframe \<times> float64" where
  "signal_computer df window =
     (case df_getitem df ''close'' of Inl e \<Rightarrow> Inl e | Inr close \<Rightarrow>
     (case rolling_mean close window of Inl e \<Rightarrow> Inl e | Inr rm \<Rightarrow>
        signal_stage (df_setitem df ''rolling_mean'' rm)))"

section \<open>Rounding and truncation\<close>

text \<open>
  \<^verbatim>\<open>round(x, 4)\<close> rounds to the nearest multiple of \<open>10\<^sup>-\<^sup>4\<close>, a tie going to the even
  neighbour; NaN stays NaN. It is applied to the exact number here; the machine applies
  it to the double, which can lie on the other side of a tie. \<^verbatim>\<open>int(x)\<close> truncates
  towards zero.
\<close>

definition round_half_even :: "rat \<Rightarrow> int" where
  "round_half_even q =
     (let f = \<lfloor>q\<rfloor>; d = q - of_int f
      in if d < 1 / 2 then f else if 1 / 2 < d then f + 1 else if even f then f else f + 1)"

definition py_round :: "float64 \<Rightarrow> nat \<Rightarrow> float64" where
  "py_round x ndigits =
     (case x of
        None \<Rightarrow> None
      | Some q \<Rightarrow> Some (of_int (round_half_even (q * 10 ^ ndigits)) / 10 ^ ndigits))"

definition py_int :: "rat \<Rightarrow> int" where
  "py_int q = (if 0 \<le> q then \<lfloor>q\<rfloor> else \<lceil>q\<rceil>)"

section \<open>The environment of a run\<close>

text \<open>
  A run sees the files at the paths it is given: \<open>files\<close> gives the text read from a path
  that exists (a path that exists and cannot be read is not represented), and
  \<open>open_for_writing\<close> the exception, if any, that opening a path for writing or appending
  raises (a missing directory, a refused permission). It calls three library functions
  whose results this development does not fix: the YAML parser (\<open>Inl\<close> is the exception
  it raises, whatever its class), the CSV reader (\<open>None\<close> is any exception of
  \<^verbatim>\<open>pd.read_csv\<close>) and the seeding of the random generator (\<open>Some\<close> is the exception it
  raises for a seed it refuses). The command line is taken to hold its four arguments;
  writing to an opened file, logging to the opened log and printing are taken to
  succeed.
\<close>

record environment =
  files :: "string \<Rightarrow> string option"
  open_for_writing :: "string \<Rightarrow> exn option"
  yaml_safe_load :: "string \<Rightarrow> exn + pyval"
  pd_read_csv :: "string \<Rightarrow> dataframe option"
  np_random_seed :: "pyval \<Rightarrow> exn option"

record arguments =
  arg_input :: string
  arg_config :: string
  arg_output :: string
  arg_log_file :: string

section \<open>Configuration loader\<close>

text \<open>
  \<^verbatim>\<open>key in obj\<close> for a string key: a key of a mapping, an element of a list, a substring
  of a string; anything else is not iterable.
\<close>

definition py_contains :: "pyval \<Rightarrow> string \<Rightarrow> exn + bool" where
  "py_contains obj key =
     (case obj of
        PDict kvs \<Rightarrow> Inr (map_of kvs key \<noteq> None)
      | PList xs \<Rightarrow> Inr (List.member xs (PStr key))
      | PStr s \<Rightarrow> Inr (sublist key s)
      | _ \<Rightarrow>
          Inl (TypeError, ''argument of type '' @ quoted (type_name obj) @ '' is not iterable''))"

text \<open>\<^verbatim>\<open>obj[key]\<close> for a string key.\<close>

definition py_getitem :: "pyval \<Rightarrow> string \<Rightarrow> exn + pyval" where
  "py_getitem obj key =
     (case obj of
        PDict kvs \<Rightarrow>
          (case map_of kvs key of None \<Rightarrow> Inl (KeyError, quoted key) | Some v \<Rightarrow> Inr v)
      | PList xs \<Rightarrow> Inl (TypeError, ''list indices must be integers or slices, not str'')
      | PStr s \<Rightarrow> Inl (TypeError, ''string indices must be integers, not '' @ quoted ''str'')
      | _ \<Rightarrow> Inl (TypeError, quoted (type_name obj) @ '' object is not subscriptable''))"

definition required_keys :: "string list" where
  "required_keys = [''seed'', ''window'', ''version'']"

fun check_required :: "pyval \<Rightarrow> string list \<Rightarrow> exn option" where
  \<comment> \<open>the loop over the required keys; \<open>None\<close> when it runs through\<close>
  "check_required config [] = None"
| "check_required config (key # keys) =
     (case py_contains config key of
        Inl e \<Rightarrow> Some e
      | Inr present \<Rightarrow>
          if \<not> present then Some (ValueError, ''Invalid configuration file structure'')
          else check_required config keys)"

definition load_config :: "environment \<Rightarrow> string \<Rightarrow> exn + pyval" where
  "load_config env config_path =
     (case files env config_path of
        None \<Rightarrow> Inl (FileNotFoundError, ''Configuration file not found'')
      | Some text \<Rightarrow>
          (case yaml_safe_load env text of
             Inl e \<Rightarrow> Inl e
           | Inr config \<Rightarrow>
               (case check_required config required_keys of
                  Some e \<Rightarrow> Inl e
                | None \<Rightarrow> Inr config)))"

section \<open>Dataset loader\<close>

definition load_data :: "environment \<Rightarrow> string \<Rightarrow> exn + dataframe" where
  "load_data env input_path =
     (case files env input_path of
        None \<Rightarrow> Inl (FileNotFoundError, ''Input CSV file not found'')
      | Some text \<Rightarrow>
          (case pd_read_csv env text of
             None \<Rightarrow> Inl (ValueError, ''Invalid CSV file format'')
           | Some df \<Rightarrow>
               if df_empty df then Inl (ValueError, ''Input file is empty'')
               else if map_of (columns df) ''close'' = None
                 then Inl (ValueError, ''Missing required column: close'')
               else Inr df))"

section \<open>Reports and the run\<close>

text \<open>
  A report is the dictionary that is dumped, in key order. \<^verbatim>\<open>json.dump\<close> writes the
  document piece by piece, so a value it cannot serialise (a date, in these values)
  leaves an incomplete document in the file and raises \<^verbatim>\<open>TypeError\<close>.
\<close>

type_synonym report = "(string \<times> pyval) list"

datatype written = Complete report | Partial report

fun report_of :: "written \<Rightarrow> report" where
  "report_of (Complete r) = r"
| "report_of (Partial r) = r"

fun json_serializable :: "pyval \<Rightarrow> bool" where
  "json_serializable (PDate d) = False"
| "json_serializable (PList xs) = list_all json_serializable xs"
| "json_serializable (PDict kvs) = list_all (\<lambda>kv. json_serializable (snd kv)) kvs"
| "json_serializable v = True"

definition json_dump :: "report \<Rightarrow> written \<times> exn option" where
  "json_dump r =
     (if list_all (\<lambda>kv. json_serializable (snd kv)) r then (Complete r, None)
      else (Partial r, Some (TypeError, ''Object of type date is not JSON serializable'')))"

text \<open>
  What a run leaves behind: the exit code of the process and the documents written to the
  output path, in order (each one replaces the file).
\<close>

record outcome =
  exit_code :: int
  writes :: "written list"

text \<open>
  The \<^verbatim>\<open>except\<close> block. \<open>cfg\<close> is \<open>None\<close> when the name \<^verbatim>\<open>config\<close> was never bound. An
  exception raised inside the block (by \<^verbatim>\<open>config["version"]\<close>, by \<^verbatim>\<open>open\<close>, by the dump)
  is not caught: the interpreter prints it and exits with code 1; \<^verbatim>\<open>sys.exit(1)\<close> gives
  the same code. A file that cannot be opened is not written.
\<close>

definition error_exit ::
  "environment \<Rightarrow> arguments \<Rightarrow> pyval option \<Rightarrow> exn \<Rightarrow> written list \<Rightarrow> outcome" where
  "error_exit env args cfg e ws =
     (case (case cfg of None \<Rightarrow> Inr (PStr ''unknown'') | Some c \<Rightarrow> py_getitem c ''version'') of
        Inl e' \<Rightarrow> \<lparr>exit_code = 1, writes = ws\<rparr>
      | Inr v \<Rightarrow>
          let error_output =
                [(''version'', v), (''status'', PStr ''error''), (''error_message'', PStr (snd e))]
          in (case open_for_writing env (arg_output args) of
                Some e' \<Rightarrow> \<lparr>exit_code = 1, writes = ws\<rparr>
              | None \<Rightarrow> \<lparr>exit_code = 1, writes = ws @ [fst (json_dump error_output)]\<rparr>))"

text \<open>
  \<^verbatim>\<open>main\<close>, with the two clock readings that enter the success report: at the start and
  after the computation. \<^verbatim>\<open>setup_logging\<close> opens the log file before the \<^verbatim>\<open>try\<close>: if that
  raises, nothing is caught and nothing is written. Opening the output file is inside
  the \<^verbatim>\<open>try\<close>.
\<close>

definition main :: "environment \<Rightarrow> arguments \<Rightarrow> rat \<Rightarrow> rat \<Rightarrow> outcome" where
  "main env args start_time end_time =
     (case open_for_writing env (arg_log_file args) of
        Some e \<Rightarrow> \<lparr>exit_code = 1, writes = []\<rparr>
      | None \<Rightarrow>
     (case load_config env (arg_config args) of
        Inl e \<Rightarrow> error_exit env args None e []
      | Inr cfg \<Rightarrow>
     (case py_getitem cfg ''seed'' of
        Inl e \<Rightarrow> error_exit env args (Some cfg) e [] | Inr seed \<Rightarrow>
     (case py_getitem cfg ''window'' of
        Inl e \<Rightarrow> error_exit env args (Some cfg) e [] | Inr window \<Rightarrow>
     (case py_getitem cfg ''version'' of
        Inl e \<Rightarrow> error_exit env args (Some cfg) e [] | Inr version \<Rightarrow>
     (case np_random_seed env seed of
        Some e \<Rightarrow> error_exit env args (Some cfg) e [] | None \<Rightarrow>
     (case load_data env (arg_input args) of
        Inl e \<Rightarrow> error_exit env args (Some cfg) e [] | Inr df \<Rightarrow>
      let rows_processed = nrows df in
     (case signal_computer df window of
        Inl e \<Rightarrow> error_exit env args (Some cfg) e []
      | Inr (df2, signal_rate) \<Rightarrow>
      let latency_ms = py_int ((end_time - start_time) * 1000);
          output =
            [(''version'', version),
             (''rows_processed'', PInt (int rows_processed)),
             (''metric'', PStr ''signal_rate''),
             (''value'', PFloat (py_round signal_rate 4)),
             (''latency_ms'', PInt latency_ms),
             (''seed'', seed),
             (''status'', PStr ''success'')]
      in (case open_for_writing env (arg_output args) of
            Some e \<Rightarrow> error_exit env args (Some cfg) e []
          | None \<Rightarrow>
              (case json_dump output of
                 (w, None) \<Rightarrow> \<lparr>exit_code = 0, writes = [w]\<rparr>
               | (w, Some e) \<Rightarrow> error_exit env args (Some cfg) e [w]))))))))))"

section \<open>Predicates used in the statements\<close>

text \<open>
  A configuration whose reports can be written: a mapping whose \<^verbatim>\<open>version\<close> and \<^verbatim>\<open>seed\<close>
  are values that JSON has.
\<close>

definition config_reportable :: "pyval \<Rightarrow> bool" where
  "config_reportable cfg =
     (case cfg of
        PDict kvs \<Rightarrow>
          (case map_of kvs ''version'' of None \<Rightarrow> False | Some v \<Rightarrow> json_serializable v) \<and>
          (case map_of kvs ''seed'' of None \<Rightarrow> False | Some v \<Rightarrow> json_serializable v)
      | _ \<Rightarrow> False)"

text \<open>A written document without its \<^verbatim>\<open>latency_ms\<close> field.\<close>

fun drop_latency :: "written \<Rightarrow> written" where
  "drop_latency (Complete r) = Complete (AList.delete ''latency_ms'' r)"
| "drop_latency (Partial r) = Partial (AList.delete ''latency_ms'' r)"

section \<open>A concrete environment\<close>

text \<open>
  Some files, with a parser and a reader that agree with PyYAML and pandas on their
  texts, a generator that takes the seeds NumPy takes among \<^verbatim>\<open>None\<close>, booleans and
  integers, and one directory that does not exist.
\<close>

definition unlines :: "string list \<Rightarrow> string" where
  "unlines ls = concat (map (\<lambda>l. l @ [CHR 0x0A]) ls)"

definition demo_frame :: dataframe where
  "demo_frame =
     \<lparr>nrows = 4,
      columns = [(''volume'', Int64 [10, 20, 30, 40]),
                 (''close'', Float64 [Some 2, Some 4, Some 8, Some 2])]\<rparr>"

definition big_int_frame :: dataframe where
  \<comment> \<open>two integer closes, \<open>2\<^sup>5\<^sup>3\<close> and \<open>2\<^sup>5\<^sup>3 + 1\<close>\<close>
  "big_int_frame =
     \<lparr>nrows = 2, columns = [(''close'', Int64 [9007199254740992, 9007199254740993])]\<rparr>"

definition header_frame :: dataframe where
  "header_frame = \<lparr>nrows = 0, columns = [(''volume'', Object []), (''open'', Object [])]\<rparr>"

definition demo_config :: "int \<Rightarrow> pyval \<Rightarrow> pyval" where
  "demo_config w v = PDict [(''seed'', PInt 42), (''window'', PInt w), (''version'', v)]"

definition demo_yaml :: "string \<Rightarrow> exn + pyval" where
  "demo_yaml t =
     (if t = ''{seed: 42, window: 2, version: v1}'' then Inr (demo_config 2 (PStr ''v1''))
      else if t = ''{seed: 42, window: 0, version: v1}'' then Inr (demo_config 0 (PStr ''v1''))
      else if t = ''{seed: 42, window: -1, version: v1}'' then Inr (demo_config (- 1) (PStr ''v1''))
      else if t = ''{seed: 42, window: 9223372036854775808, version: v1}''
        then Inr (demo_config 9223372036854775808 (PStr ''v1''))
      else if t = ''{seed: 42, window: 2, version: 2024-01-01}''
        then Inr (demo_config 2 (PDate ''2024-01-01''))
      else if t = ''{seed: 42, window: 2, version: 2024-13-45}''
        then Inl (ValueError, ''month must be in 1..12'')
      else if t = ''[seed, window, version]''
        then Inr (PList [PStr ''seed'', PStr ''window'', PStr ''version''])
      else if t = [] then Inr PNone
      else Inl (YAMLError, ''could not parse''))"

definition demo_csv :: "string \<Rightarrow> dataframe option" where
  "demo_csv t =
     (if t = unlines [''volume,close'', ''10,2.0'', ''20,4.0'', ''30,8.0'', ''40,2.0'']
        then Some demo_frame
      else if t = unlines [''volume,open''] then Some header_frame
      else None)"

definition demo_seed :: "pyval \<Rightarrow> exn option" where
  "demo_seed s =
     (case s of
        PNone \<Rightarrow> None
      | PBool b \<Rightarrow> None
      | PInt n \<Rightarrow>
          if 0 \<le> n \<and> n < 2 ^ 32 then None
          else Some (ValueError, ''Seed must be between 0 and 2**32 - 1'')
      | _ \<Rightarrow> Some (TypeError, ''Cannot cast seed''))"

definition demo_files :: "string \<Rightarrow> string option" where
  "demo_files p =
     (if p = ''config.yaml'' then Some ''{seed: 42, window: 2, version: v1}''
      else if p = ''window0.yaml'' then Some ''{seed: 42, window: 0, version: v1}''
      else if p = ''negative.yaml'' then Some ''{seed: 42, window: -1, version: v1}''
      else if p = ''huge.yaml''
        then Some ''{seed: 42, window: 9223372036854775808, version: v1}''
      else if p = ''dated.yaml'' then Some ''{seed: 42, window: 2, version: 2024-01-01}''
      else if p = ''baddate.yaml'' then Some ''{seed: 42, window: 2, version: 2024-13-45}''
      else if p = ''list.yaml'' then Some ''[seed, window, version]''
      else if p = ''empty.yaml'' then Some []
      else if p = ''data.csv''
        then Some (unlines [''volume,close'', ''10,2.0'', ''20,4.0'', ''30,8.0'', ''40,2.0''])
      else if p = ''header.csv'' then Some (unlines [''volume,open''])
      else None)"

definition demo_open :: "string \<Rightarrow> exn option" where
  "demo_open p =
     (if p = ''missing_dir/metrics.json''
      then Some (FileNotFoundError,
                 ''[Errno 2] No such file or directory: '' @ quoted ''missing_dir/metrics.json'')
      else None)"

definition demo_env :: environment where
  "demo_env =
     \<lparr>files = demo_files, open_for_writing = demo_open, yaml_safe_load = demo_yaml,
      pd_read_csv = demo_csv, np_random_seed = demo_seed\<rparr>"

definition demo_args :: "string \<Rightarrow> string \<Rightarrow> arguments" where
  "demo_args cfg inp =
     \<lparr>arg_input = inp, arg_config = cfg, arg_output = ''metrics.json'',
      arg_log_file = ''run.log''\<rparr>"

section \<open>Auxiliary notions\<close>

text \<open>
  Names for what the proofs below talk about: the statistics of one window, the signal
  and rate computed from a column and its rolling mean, the frame after both
  assignments, and the two dictionaries that \<^verbatim>\<open>main\<close> dumps.
\<close>

definition window_stats :: "float64 list \<Rightarrow> nat \<Rightarrow> nat \<Rightarrow> nat \<times> rat" where
  "window_stats vals w i =
     (nobs_of (slice vals (window_start w i) (window_end w i)),
      sum_of (slice vals (window_start w i) (window_end w i)))"

definition signal_of :: "float64 list \<Rightarrow> float64 list \<Rightarrow> int list" where
  "signal_of cl rm = map (\<lambda>b. if b then 1 else 0) (map (\<lambda>(x, y). float_gt x y) (zip cl rm))"

definition rate_of :: "int list \<Rightarrow> float64" where
  "rate_of sg = (if sg = [] then None else Some (of_int (sum_list sg) / of_nat (length sg)))"

definition computed_frame :: "dataframe \<Rightarrow> float64 list \<Rightarrow> int list \<Rightarrow> dataframe" where
  "computed_frame df rm sg =
     df_setitem (df_setitem df ''rolling_mean'' (Float64 rm)) ''signal'' (Int64 sg)"

definition error_report :: "pyval \<Rightarrow> exn \<Rightarrow> report" where
  "error_report v e = [(''version'', v), (''status'', PStr ''error''), (''error_message'', PStr (snd e))]"

definition success_report :: "pyval \<Rightarrow> nat \<Rightarrow> float64 \<Rightarrow> int \<Rightarrow> pyval \<Rightarrow> report" where
  "success_report version rows rate latency seed =
     [(''version'', version), (''rows_processed'', PInt (int rows)),
      (''metric'', PStr ''signal_rate''), (''value'', PFloat (py_round rate 4)),
      (''latency_ms'', PInt latency), (''seed'', seed), (''status'', PStr ''success'')]"

section \<open>The sliding aggregation computes the statistics of each window\<close>

lemma fold_add_mean: "fold add_mean xs (n, s) = (n + nobs_of xs, s + sum_of xs)"
proof (induction xs arbitrary: n s)
  case Nil
  show ?case by (simp add: nobs_of_def sum_of_def)
next
  case (Cons x xs)
  show ?case by (cases x) (simp_all add: Cons.IH nobs_of_def sum_of_def)
qed

lemma fold_remove_mean: "fold remove_mean xs (n, s) = (n - nobs_of xs, s - sum_of xs)"
proof (induction xs arbitrary: n s)
  case Nil
  show ?case by (simp add: nobs_of_def sum_of_def)
next
  case (Cons x xs)
  show ?case by (cases x) (simp_all add: Cons.IH nobs_of_def sum_of_def)
qed

lemma slice_append:
  assumes "a \<le> b" and "b \<le> c"
  shows "slice xs a c = slice xs a b @ slice xs b c"
proof -
  have "c - a = (b - a) + (c - b)" using assms by simp
  then have "take (c - a) (drop a xs)
               = take (b - a) (drop a xs) @ take (c - b) (drop (b - a) (drop a xs))"
    by (simp only: take_add)
  with assms show ?thesis by (simp add: slice_def)
qed

lemma nobs_of_append: "nobs_of (xs @ ys) = nobs_of xs + nobs_of ys"
  by (simp add: nobs_of_def)

lemma sum_of_append: "sum_of (xs @ ys) = sum_of xs + sum_of ys"
  by (simp add: sum_of_def)

lemma nobs_of_le: "nobs_of xs \<le> length xs"
  by (simp add: nobs_of_def)

lemma roll_step_window:
  assumes "i = 0 \<or> st = window_stats vals w (i - 1)"
  shows "roll_step vals w i (st, out) =
           (window_stats vals w i, out @ [calc_mean w (window_stats vals w i)])"
proof (cases "i = 0 \<or> window_end w (i - 1) \<le> window_start w i")
  case True
  then show ?thesis
    by (simp add: roll_step_def Let_def fold_add_mean window_stats_def)
next
  case False
  then have i: "0 < i" and lt: "window_start w i < window_end w (i - 1)" by auto
  define a where "a = window_start w (i - 1)"
  define s where "s = window_start w i"
  define b where "b = window_end w (i - 1)"
  define e where "e = window_end w i"
  from i assms have st: "st = (nobs_of (slice vals a b), sum_of (slice vals a b))"
    by (simp add: window_stats_def a_def b_def)
  have as: "a \<le> s" and sb: "s \<le> b" and be: "b \<le> e"
    using i lt by (auto simp add: window_start_def window_end_def a_def s_def b_def e_def
        split: if_splits)
  have old: "slice vals a b = slice vals a s @ slice vals s b"
    using as sb by (rule slice_append)
  have new: "slice vals s e = slice vals s b @ slice vals b e"
    using sb be by (rule slice_append)
  have "fold add_mean (slice vals b e) (fold remove_mean (slice vals a s) st)
          = (nobs_of (slice vals s e), sum_of (slice vals s e))"
    by (simp add: st fold_add_mean fold_remove_mean old new nobs_of_append sum_of_append)
  then have "fold add_mean (slice vals (window_end w (i - 1)) (window_end w i))
               (fold remove_mean (slice vals (window_start w (i - 1)) (window_start w i)) st)
          = window_stats vals w i"
    by (simp only: a_def s_def b_def e_def window_stats_def)
  with False show ?thesis
    by (simp add: roll_step_def Let_def)
qed

lemma roll_fold:
  "fold (roll_step vals w) [0..<n] ((0, 0), []) =
     ((if n = 0 then (0, 0) else window_stats vals w (n - 1)),
      map (\<lambda>i. calc_mean w (window_stats vals w i)) [0..<n])"
proof (induction n)
  case 0
  show ?case by simp
next
  case (Suc n)
  have "n = 0 \<or> (if n = 0 then (0, 0) else window_stats vals w (n - 1)) = window_stats vals w (n - 1)"
    by simp
  then show ?case
    by (simp add: Suc.IH roll_step_window del: upt_Suc add: upt_Suc_append)
qed

lemma roll_mean_eq:
  "roll_mean vals w = map (\<lambda>i. calc_mean w (window_stats vals w i)) [0..<length vals]"
  by (simp add: roll_mean_def roll_fold)

lemma length_roll_mean: "length (roll_mean vals w) = length vals"
  by (simp add: roll_mean_eq)

lemma roll_mean_all_missing:
  assumes "w = 0 \<or> length vals < w"
  shows "roll_mean vals w = replicate (length vals) None"
proof (rule nth_equalityI)
  show "length (roll_mean vals w) = length (replicate (length vals) None)"
    by (simp add: length_roll_mean)
next
  fix i
  assume "i < length (roll_mean vals w)"
  then have i: "i < length vals" by (simp add: length_roll_mean)
  let ?xs = "slice vals (window_start w i) (window_end w i)"
  have "length ?xs \<le> window_end w i - window_start w i"
    by (simp add: slice_def)
  with nobs_of_le [of ?xs] have "nobs_of ?xs \<le> window_end w i - window_start w i"
    by (rule order_trans)
  with assms i have "nobs_of ?xs = 0 \<or> nobs_of ?xs < w"
    by (auto simp: window_start_def window_end_def)
  then have "calc_mean w (window_stats vals w i) = None"
    by (auto simp: calc_mean_def window_stats_def)
  with i show "roll_mean vals w ! i = replicate (length vals) None ! i"
    by (simp add: roll_mean_eq)
qed

section \<open>The signal computer on a numeric column\<close>

lemma df_getitem_Inr: "df_getitem df name = Inr c \<longleftrightarrow> map_of (columns df) name = Some c"
  by (simp add: df_getitem_def split: option.splits)

lemma computed_frame_columns:
  assumes "df_getitem df ''close'' = Inr c"
  shows "df_getitem (computed_frame df rm sg) ''close'' = Inr c"
    and "df_getitem (computed_frame df rm sg) ''rolling_mean'' = Inr (Float64 rm)"
    and "df_getitem (computed_frame df rm sg) ''signal'' = Inr (Int64 sg)"
  using assms
  by (simp_all add: df_getitem_Inr computed_frame_def df_setitem_def update_conv')

lemma df_getitem_setitem_same: "df_getitem (df_setitem df name c) name = Inr c"
  by (simp add: df_getitem_def df_setitem_def update_conv')

lemma df_getitem_setitem_other:
  "name' \<noteq> name \<Longrightarrow> df_getitem (df_setitem df name c) name' = df_getitem df name'"
  by (simp add: df_getitem_def df_setitem_def update_conv')

lemma signal_stage_numeric:
  assumes "df_getitem df1 ''close'' = Inr c"
    and "prep_values c = Inr cl"
    and "df_getitem df1 ''rolling_mean'' = Inr (Float64 rm)"
  shows "signal_stage df1 =
           Inr (df_setitem df1 ''signal'' (Int64 (signal_of cl rm)), rate_of (signal_of cl rm))"
proof -
  have gt: "series_gt c (Float64 rm) = Inr (map (\<lambda>(x, y). float_gt x y) (zip cl rm))"
    using assms(2) by (simp add: series_gt_def)
  show ?thesis
    by (simp add: signal_stage_def assms(1,3) gt Let_def astype_int_def signal_of_def
          rate_of_def df_getitem_setitem_same)
qed

lemma roll_mean_Nil: "roll_mean [] w = []"
  by (simp add: roll_mean_def)

lemma rolling_mean_numeric:
  assumes "prep_values c = Inr cl"
    and "rolling_window window = Inr w"
    and "cl = [] \<or> w < 2 ^ 63"
  shows "rolling_mean c window = Inr (Float64 (roll_mean cl (nat w)))"
  using assms by (auto simp: rolling_mean_def window_bounds_check_def roll_mean_Nil)

lemma signal_computer_numeric:
  assumes "df_getitem df ''close'' = Inr c"
    and "prep_values c = Inr cl"
    and "rolling_window window = Inr w"
    and "cl = [] \<or> w < 2 ^ 63"
  shows "signal_computer df window =
           Inr (computed_frame df (roll_mean cl (nat w)) (signal_of cl (roll_mean cl (nat w))),
                rate_of (signal_of cl (roll_mean cl (nat w))))"
proof -
  let ?rm = "roll_mean cl (nat w)"
  let ?df1 = "df_setitem df ''rolling_mean'' (Float64 ?rm)"
  have rm: "rolling_mean c window = Inr (Float64 ?rm)"
    using assms(2-4) by (rule rolling_mean_numeric)
  have c1: "df_getitem ?df1 ''close'' = Inr c"
    and r1: "df_getitem ?df1 ''rolling_mean'' = Inr (Float64 ?rm)"
    using assms(1) by (simp_all add: df_getitem_setitem_same df_getitem_setitem_other)
  show ?thesis
    by (simp add: signal_computer_def assms(1) rm signal_stage_numeric [OF c1 assms(2) r1]
          computed_frame_def)
qed

lemma signal_computer_Inr:
  assumes "signal_computer df window = Inr (df2, rate)"
  obtains c cl w where "df_getitem df ''close'' = Inr c" and "prep_values c = Inr cl"
    and "rolling_window window = Inr w" and "cl = [] \<or> w < 2 ^ 63"
proof -
  from assms obtain c where c: "df_getitem df ''close'' = Inr c"
    by (cases "df_getitem df ''close''") (simp_all add: signal_computer_def)
  from assms c obtain rmc where rmc: "rolling_mean c window = Inr rmc"
    by (cases "rolling_mean c window") (simp_all add: signal_computer_def)
  then obtain w where w: "rolling_window window = Inr w"
    by (cases "rolling_window window") (simp_all add: rolling_mean_def)
  with rmc obtain cl where cl: "prep_values c = Inr cl"
    by (cases "prep_values c") (simp_all add: rolling_mean_def)
  with rmc w have "cl = [] \<or> w < 2 ^ 63"
    by (auto simp: rolling_mean_def window_bounds_check_def split: if_splits)
  with c cl w that show thesis by blast
qed

lemma length_signal_of: "length rm = length cl \<Longrightarrow> length (signal_of cl rm) = length cl"
  by (simp add: signal_of_def)

lemma signal_of_nth:
  assumes "length rm = length cl" and "i < length cl"
  shows "signal_of cl rm ! i = (if \<exists>x y. cl ! i = Some x \<and> rm ! i = Some y \<and> y < x then 1 else 0)"
  using assms by (auto simp: signal_of_def float_gt_def split: option.splits)

lemma signal_of_missing: "signal_of cl (replicate (length cl) None) = replicate (length cl) 0"
  by (rule nth_equalityI) (simp_all add: signal_of_def float_gt_def split: option.splits)

lemma sum_list_signal_of: "sum_list (signal_of cl rm) = int (count_list (signal_of cl rm) 1)"
proof -
  have "sum_list (map (\<lambda>b. if b then 1 else 0) bs) = int (count_list (map (\<lambda>b. if b then 1 else (0::int)) bs) 1)" for bs
    by (induction bs) auto
  then show ?thesis unfolding signal_of_def .
qed

lemma count_list_le_length: "count_list xs x \<le> length xs"
  by (induction xs) auto

section \<open>Rounding\<close>

lemma round_half_even_near: "\<bar>of_int (round_half_even q) - q\<bar> \<le> 1 / 2"
proof -
  have "of_int \<lfloor>q\<rfloor> \<le> q" and "q < of_int \<lfloor>q\<rfloor> + 1" by linarith+
  then show ?thesis
    by (auto simp: round_half_even_def Let_def abs_le_iff)
qed

lemma round_half_even_bounds:
  assumes "of_int a \<le> q" and "q \<le> of_int b"
  shows "a \<le> round_half_even q" and "round_half_even q \<le> b"
proof -
  have fl: "a \<le> \<lfloor>q\<rfloor>" using assms(1) by (simp add: le_floor_iff)
  have fb: "\<lfloor>q\<rfloor> \<le> b" using assms(2) by (simp add: floor_le_iff)
  show "a \<le> round_half_even q" using fl by (auto simp: round_half_even_def Let_def)
  have "\<lfloor>q\<rfloor> + 1 \<le> b" if "q \<noteq> of_int \<lfloor>q\<rfloor>"
  proof -
    have "of_int \<lfloor>q\<rfloor> < q" using that by (metis floor_correct order_neq_le_trans of_int_floor_le)
    with assms(2) have "of_int \<lfloor>q\<rfloor> < (of_int b :: rat)" by simp
    then show ?thesis by simp
  qed
  then show "round_half_even q \<le> b" using fb
    by (auto simp: round_half_even_def Let_def)
qed

section \<open>Converting integers\<close>

lemma float64_of_int_exact:
  assumes "\<bar>n\<bar> \<le> 2 ^ 53"
  shows "float64_of_int n = of_int n"
proof (cases "\<bar>n\<bar> = 2 ^ 53")
  case True
  then have "n = 9007199254740992 \<or> n = - 9007199254740992" by (simp add: abs_eq_iff')
  moreover have "float64_of_int 9007199254740992 = 9007199254740992"
    and "float64_of_int (- 9007199254740992) = - 9007199254740992"
    by code_simp+
  ultimately show ?thesis by auto
next
  case False
  with assms have lt: "\<bar>n\<bar> < 2 ^ 53" by simp
  have "bitlen \<bar>n\<bar> \<le> 53"
  proof (cases "0 < \<bar>n\<bar>")
    case True
    then have "2 ^ nat (bitlen \<bar>n\<bar> - 1) \<le> \<bar>n\<bar>"
      using bitlen_bounds [of "\<bar>n\<bar>"] by simp
    with lt have h: "(2::int) ^ nat (bitlen \<bar>n\<bar> - 1) < 2 ^ 53" by simp
    have one: "(1::int) < 2" by simp
    from power_less_imp_less_exp [OF one h] have "nat (bitlen \<bar>n\<bar> - 1) < 53" .
    then show ?thesis by simp
  next
    case False
    then have "\<bar>n\<bar> = 0" by simp
    then show ?thesis by simp
  qed
  then show ?thesis by (simp add: float64_of_int_def Let_def)
qed

section \<open>The stages of the run\<close>

lemma exit_code_error_exit: "exit_code (error_exit env args cfg e ws) = 1"
  by (simp add: error_exit_def Let_def split: sum.splits option.splits)

lemma error_exit_unbound:
  assumes "open_for_writing env (arg_output args) = None"
  shows "error_exit env args None e ws =
           \<lparr>exit_code = 1, writes = ws @ [Complete (error_report (PStr ''unknown'') e)]\<rparr>"
  using assms by (simp add: error_exit_def json_dump_def error_report_def)

lemma error_exit_bound:
  assumes "py_getitem cfg ''version'' = Inr v"
    and "open_for_writing env (arg_output args) = None"
  shows "error_exit env args (Some cfg) e ws =
           \<lparr>exit_code = 1, writes = ws @ [fst (json_dump (error_report v e))]\<rparr>"
  using assms by (simp add: error_exit_def error_report_def)

lemma error_exit_closed:
  assumes "open_for_writing env (arg_output args) = Some e'"
  shows "error_exit env args cfg e ws = \<lparr>exit_code = 1, writes = ws\<rparr>"
  using assms by (simp add: error_exit_def Let_def split: sum.splits option.splits)

lemma json_dump_error_report:
  "json_dump (error_report v e) =
     (if json_serializable v then (Complete (error_report v e), None)
      else (Partial (error_report v e),
            Some (TypeError, ''Object of type date is not JSON serializable'')))"
  by (simp add: json_dump_def error_report_def)

lemma json_dump_success_report:
  "json_dump (success_report v n r l sd) =
     (if json_serializable v \<and> json_serializable sd
      then (Complete (success_report v n r l sd), None)
      else (Partial (success_report v n r l sd),
            Some (TypeError, ''Object of type date is not JSON serializable'')))"
  by (simp add: json_dump_def success_report_def)

lemma main_log_fault:
  assumes "open_for_writing env (arg_log_file args) = Some e"
  shows "main env args s t = \<lparr>exit_code = 1, writes = []\<rparr>"
  using assms by (simp add: main_def)

lemma main_config_fault:
  assumes "open_for_writing env (arg_log_file args) = None"
    and "load_config env (arg_config args) = Inl e"
  shows "main env args s t = error_exit env args None e []"
  using assms by (simp add: main_def)

lemma main_data_fault:
  assumes "open_for_writing env (arg_log_file args) = None"
    and "load_config env (arg_config args) = Inr cfg"
    and "py_getitem cfg ''seed'' = Inr seed"
    and "py_getitem cfg ''window'' = Inr window"
    and "py_getitem cfg ''version'' = Inr version"
    and "np_random_seed env seed = None"
    and "load_data env (arg_input args) = Inl e"
  shows "main env args s t = error_exit env args (Some cfg) e []"
  using assms by (simp add: main_def)

lemma main_signal_fault:
  assumes "open_for_writing env (arg_log_file args) = None"
    and "load_config env (arg_config args) = Inr cfg"
    and "py_getitem cfg ''seed'' = Inr seed"
    and "py_getitem cfg ''window'' = Inr window"
    and "py_getitem cfg ''version'' = Inr version"
    and "np_random_seed env seed = None"
    and "load_data env (arg_input args) = Inr df"
    and "signal_computer df window = Inl e"
  shows "main env args s t = error_exit env args (Some cfg) e []"
  using assms by (simp add: main_def)

lemma main_computed:
  assumes "open_for_writing env (arg_log_file args) = None"
    and "load_config env (arg_config args) = Inr cfg"
    and "py_getitem cfg ''seed'' = Inr seed"
    and "py_getitem cfg ''window'' = Inr window"
    and "py_getitem cfg ''version'' = Inr version"
    and "np_random_seed env seed = None"
    and "load_data env (arg_input args) = Inr df"
    and "signal_computer df window = Inr (df2, rate)"
  shows "main env args s t =
     (case open_for_writing env (arg_output args) of
        Some e \<Rightarrow> error_exit env args (Some cfg) e []
      | None \<Rightarrow>
          (case json_dump (success_report version (nrows df) rate (py_int ((t - s) * 1000)) seed) of
             (w, None) \<Rightarrow> \<lparr>exit_code = 0, writes = [w]\<rparr>
           | (w, Some e) \<Rightarrow> error_exit env args (Some cfg) e [w]))"
  using assms by (simp add: main_def success_report_def Let_def split: option.splits)

lemma main_cases:
  obtains (log_fault) e where "open_for_writing env (arg_log_file args) = Some e"
  | (config_fault) e where "open_for_writing env (arg_log_file args) = None"
      and "load_config env (arg_config args) = Inl e"
  | (later_fault) cfg e where "open_for_writing env (arg_log_file args) = None"
      and "load_config env (arg_config args) = Inr cfg"
      and "\<And>s t. main env args s t = error_exit env args (Some cfg) e []"
  | (computed) cfg seed window version df df2 rate where
      "open_for_writing env (arg_log_file args) = None"
      and "load_config env (arg_config args) = Inr cfg"
      and "py_getitem cfg ''seed'' = Inr seed"
      and "py_getitem cfg ''window'' = Inr window"
      and "py_getitem cfg ''version'' = Inr version"
      and "np_random_seed env seed = None"
      and "load_data env (arg_input args) = Inr df"
      and "signal_computer df window = Inr (df2, rate)"
proof (cases "open_for_writing env (arg_log_file args)")
  case (Some e)
  then show thesis by (rule log_fault)
next
  case lg: None
  show thesis
  proof (cases "load_config env (arg_config args)")
    case (Inl e)
    with lg show thesis by (rule config_fault)
  next
    case cfg: (Inr cfg)
    show thesis
    proof (cases "py_getitem cfg ''seed''")
      case (Inl e)
      with lg cfg have h: "\<And>s t. main env args s t = error_exit env args (Some cfg) e []"
        by (simp add: main_def)
      show thesis by (rule later_fault [OF lg cfg h])
    next
      case seed: (Inr seed)
      show thesis
      proof (cases "py_getitem cfg ''window''")
        case (Inl e)
        with lg cfg seed
        have h: "\<And>s t. main env args s t = error_exit env args (Some cfg) e []"
          by (simp add: main_def)
        show thesis by (rule later_fault [OF lg cfg h])
      next
        case window: (Inr window)
        show thesis
        proof (cases "py_getitem cfg ''version''")
          case (Inl e)
          with lg cfg seed window
          have h: "\<And>s t. main env args s t = error_exit env args (Some cfg) e []"
            by (simp add: main_def)
          show thesis by (rule later_fault [OF lg cfg h])
        next
          case version: (Inr version)
          show thesis
          proof (cases "np_random_seed env seed")
            case (Some e)
            with lg cfg seed window version
            have h: "\<And>s t. main env args s t = error_exit env args (Some cfg) e []"
              by (simp add: main_def)
            show thesis by (rule later_fault [OF lg cfg h])
          next
            case None
            show thesis
            proof (cases "load_data env (arg_input args)")
              case (Inl e)
              with lg cfg seed window version None
              have h: "\<And>s t. main env args s t = error_exit env args (Some cfg) e []"
                by (rule main_data_fault)
              show thesis by (rule later_fault [OF lg cfg h])
            next
              case df: (Inr df)
              show thesis
              proof (cases "signal_computer df window")
                case (Inl e)
                with lg cfg seed window version None df
                have h: "\<And>s t. main env args s t = error_exit env args (Some cfg) e []"
                  by (rule main_signal_fault)
                show thesis by (rule later_fault [OF lg cfg h])
              next
                case (Inr res)
                then have "signal_computer df window = Inr (fst res, snd res)" by simp
                with lg cfg seed window version None df show thesis by (rule computed)
              qed
            qed
          qed
        qed
      qed
    qed
  qed
qed

lemma config_reportable_version:
  assumes "config_reportable cfg"
  obtains v where "py_getitem cfg ''version'' = Inr v" and "json_serializable v"
  using assms by (auto simp: config_reportable_def py_getitem_def split: pyval.splits option.splits)

lemma config_reportable_seed:
  assumes "config_reportable cfg" and "py_getitem cfg ''seed'' = Inr sd"
  shows "json_serializable sd"
  using assms by (auto simp: config_reportable_def py_getitem_def split: pyval.splits option.splits)

lemma main_clock_free:
  "exit_code (main env args s1 t1) = exit_code (main env args s2 t2) \<and>
   map drop_latency (writes (main env args s1 t1)) = map drop_latency (writes (main env args s2 t2))"
proof (cases rule: main_cases [where env = env and args = args])
  case (log_fault e)
  then show ?thesis by (simp add: main_log_fault)
next
  case (config_fault e)
  then show ?thesis by (simp add: main_config_fault)
next
  case (later_fault cfg e)
  then show ?thesis by simp
next
  case (computed cfg seed window version df df2 rate)
  then have m: "main env args s t =
     (case open_for_writing env (arg_output args) of
        Some e \<Rightarrow> error_exit env args (Some cfg) e []
      | None \<Rightarrow>
          (case json_dump (success_report version (nrows df) rate (py_int ((t - s) * 1000)) seed) of
             (w, None) \<Rightarrow> \<lparr>exit_code = 0, writes = [w]\<rparr>
           | (w, Some e) \<Rightarrow> error_exit env args (Some cfg) e [w]))" for s t
    by (rule main_computed)
  have d: "drop_latency (Partial (success_report version n rate l1 seed))
             = drop_latency (Partial (success_report version n rate l2 seed))"
    and c: "drop_latency (Complete (success_report version n rate l1 seed))
             = drop_latency (Complete (success_report version n rate l2 seed))" for n l1 l2
    by (simp_all add: success_report_def)
  show ?thesis
  proof (cases "open_for_writing env (arg_output args)")
    case (Some e)
    then show ?thesis by (simp add: m)
  next
    case op: None
    show ?thesis
    proof (cases "json_serializable version \<and> json_serializable seed")
      case True
      then show ?thesis using c by (simp add: m op json_dump_success_report)
    next
      case False
      then show ?thesis using d computed(5)
        by (simp add: m op json_dump_success_report exit_code_error_exit error_exit_bound)
    qed
  qed
qed

section \<open>Windows without a mean\<close>

lemma rolling_window_int: "0 \<le> w \<Longrightarrow> rolling_window (PInt w) = Inr w"
  by (simp add: rolling_window_def)

lemma rate_of_zeros: "0 < n \<Longrightarrow> rate_of (replicate n 0) = Some 0"
  by (simp add: rate_of_def sum_list_replicate)

lemma signal_computer_all_missing:
  assumes "df_getitem df ''close'' = Inr c" and "prep_values c = Inr cl" and "cl \<noteq> []"
    and "0 \<le> w" and "w < 2 ^ 63" and "w = 0 \<or> int (length cl) < w"
  shows "signal_computer df (PInt w) =
           Inr (computed_frame df (replicate (length cl) None) (replicate (length cl) 0), Some 0)"
proof -
  from assms(6) have "nat w = 0 \<or> length cl < nat w" by auto
  then have "roll_mean cl (nat w) = replicate (length cl) None"
    by (rule roll_mean_all_missing)
  moreover from assms(5) have "cl = [] \<or> w < 2 ^ 63" by simp
  ultimately show ?thesis using assms(3)
    by (simp add: signal_computer_numeric [OF assms(1,2) rolling_window_int [OF assms(4)]]
          signal_of_missing rate_of_zeros)
qed

section \<open>The loaded table and the rounded rate\<close>

lemma load_data_Inr:
  assumes "load_data env p = Inr df"
  shows "0 < nrows df" and "map_of (columns df) ''close'' \<noteq> None"
  using assms
  by (auto simp: load_data_def df_empty_def split: option.splits if_splits)

lemma wf_dataframe_column:
  assumes "wf_dataframe df" and "map_of (columns df) name = Some c"
  shows "column_len c = nrows df"
proof -
  from assms(2) have "(name, c) \<in> set (columns df)" by (rule map_of_SomeD)
  with assms(1) show ?thesis by (auto simp: wf_dataframe_def list_all_iff)
qed

lemma length_prep_values: "prep_values c = Inr cl \<Longrightarrow> length cl = column_len c"
  by (cases c) auto

lemma py_round_4_near:
  "\<bar>of_int (round_half_even (q * 10 ^ 4)) / 10 ^ 4 - q\<bar> \<le> 1 / 20000"
proof -
  have "\<bar>of_int (round_half_even (q * 10 ^ 4)) - q * 10 ^ 4\<bar> \<le> 1 / 2"
    by (rule round_half_even_near)
  then have "\<bar>(of_int (round_half_even (q * 10 ^ 4)) - q * 10 ^ 4) / 10 ^ 4\<bar> \<le> (1 / 2) / 10 ^ 4"
    by (simp only: abs_divide) (simp add: divide_le_cancel)
  then show ?thesis by (simp add: diff_divide_distrib)
qed

lemma py_round_4_unit:
  assumes "0 \<le> q" and "q \<le> 1"
  shows "0 \<le> of_int (round_half_even (q * 10 ^ 4)) / (10 ^ 4 :: rat)"
    and "of_int (round_half_even (q * 10 ^ 4)) / (10 ^ 4 :: rat) \<le> 1"
proof -
  have "of_int 0 \<le> q * 10 ^ 4" and "q * 10 ^ 4 \<le> of_int 10000" using assms by simp_all
  then have "0 \<le> round_half_even (q * 10 ^ 4)" and "round_half_even (q * 10 ^ 4) \<le> 10000"
    by (rule round_half_even_bounds)+
  then show "0 \<le> of_int (round_half_even (q * 10 ^ 4)) / (10 ^ 4 :: rat)"
    and "of_int (round_half_even (q * 10 ^ 4)) / (10 ^ 4 :: rat) \<le> 1"
    by (simp_all add: divide_le_eq)
qed

section \<open>The key check on a mapping\<close>

lemma check_required_dict:
  "check_required (PDict kvs) ks =
     (if \<exists>k\<in>set ks. map_of kvs k = None
      then Some (ValueError, ''Invalid configuration file structure'') else None)"
  by (induction ks) (auto simp: py_contains_def)

lemma check_required_class:
  "check_required cfg ks = Some (cls, msg) \<Longrightarrow> cls = ValueError \<or> cls = TypeError"
  by (induction ks) (auto simp: py_contains_def split: pyval.splits sum.splits if_splits)

section \<open>The claims\<close>

subsection \<open>C2: the signal is the threshold crossing\<close>

text \<open>
  Claim C2, amended. Whatever numbers line 85 stored as the rolling mean (\<open>rm\<close>, one per
  row), lines 90 to 94 raise nothing, and the \<^verbatim>\<open>signal\<close> column is 1 at the rows where the
  \<^verbatim>\<open>float64\<close> value of \<open>close[i]\<close> and \<open>rolling_mean[i]\<close> are both present and the first is
  greater, and 0 at every other row; in particular it is 0 wherever the rolling mean is
  missing. The \<^verbatim>\<open>float64\<close> value of a close is the close itself in a \<^verbatim>\<open>float64\<close> column and
  the nearest double in an \<^verbatim>\<open>int64\<close> column, which is the integer itself up to \<open>2\<^sup>5\<^sup>3\<close> in
  magnitude.
\<close>

theorem signal_is_threshold_crossing:
  assumes "df_getitem df ''close'' = Inr c" and "prep_values c = Inr cl"
    and "length rm = length cl"
  shows "(rolling_mean c window = Inr (Float64 rm) \<longrightarrow>
            signal_computer df window = signal_stage (df_setitem df ''rolling_mean'' (Float64 rm))) \<and>
         (\<exists>sg df2 rate.
            signal_stage (df_setitem df ''rolling_mean'' (Float64 rm)) = Inr (df2, rate) \<and>
            df_getitem df2 ''rolling_mean'' = Inr (Float64 rm) \<and>
            df_getitem df2 ''signal'' = Inr (Int64 sg) \<and>
            length sg = length cl \<and>
            (\<forall>i<length cl.
               sg ! i = (if \<exists>x y. cl ! i = Some x \<and> rm ! i = Some y \<and> y < x then 1 else 0) \<and>
               (rm ! i = None \<longrightarrow> sg ! i = 0))) \<and>
         (\<forall>xs. c = Float64 xs \<longrightarrow> cl = xs) \<and>
         (\<forall>ns. c = Int64 ns \<longrightarrow> cl = map (\<lambda>n. Some (float64_of_int n)) ns) \<and>
         (\<forall>n. \<bar>n\<bar> \<le> 2 ^ 53 \<longrightarrow> float64_of_int n = of_int n)"
proof (intro conjI)
  show "rolling_mean c window = Inr (Float64 rm) \<longrightarrow>
          signal_computer df window = signal_stage (df_setitem df ''rolling_mean'' (Float64 rm))"
    using assms(1) by (simp add: signal_computer_def)
next
  let ?df1 = "df_setitem df ''rolling_mean'' (Float64 rm)"
  let ?sg = "signal_of cl rm"
  have c1: "df_getitem ?df1 ''close'' = Inr c"
    and r1: "df_getitem ?df1 ''rolling_mean'' = Inr (Float64 rm)"
    using assms(1) by (simp_all add: df_getitem_setitem_same df_getitem_setitem_other)
  have run: "signal_stage ?df1 = Inr (df_setitem ?df1 ''signal'' (Int64 ?sg), rate_of ?sg)"
    using c1 assms(2) r1 by (rule signal_stage_numeric)
  have cols: "df_getitem (df_setitem ?df1 ''signal'' (Int64 ?sg)) ''rolling_mean'' = Inr (Float64 rm)"
    "df_getitem (df_setitem ?df1 ''signal'' (Int64 ?sg)) ''signal'' = Inr (Int64 ?sg)"
    by (simp_all add: df_getitem_setitem_same df_getitem_setitem_other)
  have len: "length ?sg = length cl"
    using assms(3) by (rule length_signal_of)
  have nth: "?sg ! i = (if \<exists>x y. cl ! i = Some x \<and> rm ! i = Some y \<and> y < x then 1 else 0)"
    if "i < length cl" for i
    using assms(3) that by (rule signal_of_nth)
  have miss: "rm ! i = None \<longrightarrow> ?sg ! i = 0" if "i < length cl" for i
    using nth [OF that] by simp
  from run cols len nth miss
  show "\<exists>sg df2 rate.
            signal_stage ?df1 = Inr (df2, rate) \<and>
            df_getitem df2 ''rolling_mean'' = Inr (Float64 rm) \<and>
            df_getitem df2 ''signal'' = Inr (Int64 sg) \<and>
            length sg = length cl \<and>
            (\<forall>i<length cl.
               sg ! i = (if \<exists>x y. cl ! i = Some x \<and> rm ! i = Some y \<and> y < x then 1 else 0) \<and>
               (rm ! i = None \<longrightarrow> sg ! i = 0))"
    by blast
next
  show "\<forall>xs. c = Float64 xs \<longrightarrow> cl = xs"
    using assms(2) by auto
next
  show "\<forall>ns. c = Int64 ns \<longrightarrow> cl = map (\<lambda>n. Some (float64_of_int n)) ns"
    using assms(2) by auto
next
  show "\<forall>n. \<bar>n\<bar> \<le> 2 ^ 53 \<longrightarrow> float64_of_int n = of_int n"
    by (simp add: float64_of_int_exact)
qed

text \<open>
  On the closes 2, 4, 8, 2 with window 2 the means are missing, 3, 6, 5 and the signals
  0, 1, 1, 0.
\<close>

theorem signal_is_threshold_crossing_witness:
  "\<exists>df2 rate.
     signal_computer demo_frame (PInt 2) = Inr (df2, rate) \<and>
     df_getitem df2 ''rolling_mean'' = Inr (Float64 [None, Some 3, Some 6, Some 5]) \<and>
     df_getitem df2 ''signal'' = Inr (Int64 [0, 1, 1, 0])"
proof -
  let ?c = "Float64 [Some 2, Some 4, Some 8, Some 2]"
  let ?rm = "[None, Some 3, Some 6, Some (5::rat)]"
  have c: "df_getitem demo_frame ''close'' = Inr ?c"
    by (simp add: df_getitem_def demo_frame_def)
  have p: "prep_values ?c = Inr [Some 2, Some 4, Some 8, Some 2]"
    by simp
  have l: "length ?rm = length [Some 2, Some 4, Some 8, Some (2::rat)]"
    by simp
  have r: "rolling_mean ?c (PInt 2) = Inr (Float64 ?rm)"
    by code_simp
  note t = signal_is_threshold_crossing [OF c p l, of "PInt 2"]
  from t r have same: "signal_computer demo_frame (PInt 2)
      = signal_stage (df_setitem demo_frame ''rolling_mean'' (Float64 ?rm))"
    by blast
  from t obtain sg df2 rate where
    run: "signal_stage (df_setitem demo_frame ''rolling_mean'' (Float64 ?rm)) = Inr (df2, rate)"
    and c1: "df_getitem df2 ''rolling_mean'' = Inr (Float64 ?rm)"
    and c2: "df_getitem df2 ''signal'' = Inr (Int64 sg)"
    and len: "length sg = length [Some 2, Some 4, Some 8, Some (2::rat)]"
    and nth: "\<forall>i<length [Some 2, Some 4, Some 8, Some (2::rat)].
              sg ! i = (if \<exists>x y. [Some 2, Some 4, Some 8, Some 2] ! i = Some x \<and> ?rm ! i = Some y \<and> y < x
                        then 1 else 0) \<and>
              (?rm ! i = None \<longrightarrow> sg ! i = 0)"
    by blast
  from nth have "\<forall>i<4. sg ! i = [0, 1, 1, 0] ! i"
    by (simp add: All_less_Suc numeral_eq_Suc)
  with len have "sg = [0, 1, 1, 0]"
    by (intro nth_equalityI) simp_all
  with same run c1 c2 show ?thesis by simp
qed

text \<open>
  Claim C2 as stated fails on integer closes beyond \<open>2\<^sup>5\<^sup>3\<close>. With the closes \<open>2\<^sup>5\<^sup>3\<close> and
  \<open>2\<^sup>5\<^sup>3 + 1\<close> and window 2, the second rolling mean is \<open>2\<^sup>5\<^sup>3\<close>, below the second close,
  and yet the second signal is 0: both closes are the same double.
\<close>

theorem int64_close_counterexample:
  "signal_computer big_int_frame (PInt 2) =
     Inr (\<lparr>nrows = 2,
           columns = [(''close'', Int64 [9007199254740992, 9007199254740993]),
                      (''rolling_mean'', Float64 [None, Some 9007199254740992]),
                      (''signal'', Int64 [0, 0])]\<rparr>,
          Some 0) \<and>
   (9007199254740992 :: rat) < of_int 9007199254740993"
  by code_simp

subsection \<open>C3: a window that is not positive\<close>




subsection \<open>C4: the signal rate and its rounding\<close>

text \<open>
  Claim C4. In a run that exits with code 0 on a well-formed table, the signal rate is
  the number of rows whose signal is 1 divided by the number of rows, it lies between 0
  and 1, and the report, written once and completely, carries the row count and as its
  \<^verbatim>\<open>value\<close> the rate rounded to four decimals: a multiple of \<open>10\<^sup>-\<^sup>4\<close> at distance at most
  \<open>1/20000\<close> from the rate, itself between 0 and 1.
\<close>

theorem signal_rate_in_report:
  assumes "exit_code (main env args s t) = 0"
    and "load_data env (arg_input args) = Inr df"
    and "wf_dataframe df"
  shows "\<exists>cfg window df2 sg rate v r.
           load_config env (arg_config args) = Inr cfg \<and>
           py_getitem cfg ''window'' = Inr window \<and>
           signal_computer df window = Inr (df2, Some rate) \<and>
           df_getitem df2 ''signal'' = Inr (Int64 sg) \<and>
           length sg = nrows df \<and>
           rate = of_nat (count_list sg 1) / of_nat (nrows df) \<and>
           0 \<le> rate \<and> rate \<le> 1 \<and>
           writes (main env args s t) = [Complete r] \<and>
           map_of r ''rows_processed'' = Some (PInt (int (nrows df))) \<and>
           map_of r ''value'' = Some (PFloat (Some v)) \<and>
           (\<exists>k::int. v = of_int k / 10 ^ 4) \<and>
           \<bar>v - rate\<bar> \<le> 1 / 20000 \<and> 0 \<le> v \<and> v \<le> 1"
proof (cases rule: main_cases [where env = env and args = args])
  case (log_fault e)
  with assms(1) show ?thesis
    by (simp add: main_log_fault)
next
  case (config_fault e)
  with assms(1) show ?thesis
    by (simp add: main_config_fault exit_code_error_exit)
next
  case (later_fault cfg e)
  with assms(1) show ?thesis
    by (simp add: exit_code_error_exit)
next
  case (computed cfg seed window version df' df2 rate0)
  with assms(2) have df: "df' = df" by simp
  note run = computed(8) [unfolded df]
  from run obtain c cl w where c: "df_getitem df ''close'' = Inr c"
    and cl: "prep_values c = Inr cl" and w: "rolling_window window = Inr w"
    and fits: "cl = [] \<or> w < 2 ^ 63"
    by (rule signal_computer_Inr)
  let ?rm = "roll_mean cl (nat w)"
  let ?sg = "signal_of cl ?rm"
  from signal_computer_numeric [OF c cl w fits] run
  have df2: "df2 = computed_frame df ?rm ?sg" and rate0: "rate0 = rate_of ?sg"
    by simp_all
  from c have "map_of (columns df) ''close'' = Some c" by (simp add: df_getitem_Inr)
  with assms(3) have "column_len c = nrows df" by (rule wf_dataframe_column)
  with cl have lcl: "length cl = nrows df" by (simp add: length_prep_values)
  have lsg: "length ?sg = nrows df"
    using lcl by (simp add: length_signal_of length_roll_mean)
  from assms(2) have pos: "0 < nrows df" by (rule load_data_Inr)
  define rate :: rat where "rate = of_nat (count_list ?sg 1) / of_nat (nrows df)"
  from pos lsg have ne: "?sg \<noteq> []" by auto
  then have rate_eq: "rate0 = Some rate"
    by (simp add: rate0 rate_of_def sum_list_signal_of lsg rate_def)
  have "count_list ?sg 1 \<le> nrows df"
    using count_list_le_length [of ?sg 1] lsg by simp
  with pos have r0: "0 \<le> rate" and r1: "rate \<le> 1"
    by (simp_all add: rate_def divide_le_eq)
  define v :: rat where "v = of_int (round_half_even (rate * 10 ^ 4)) / 10 ^ 4"
  have near: "\<bar>v - rate\<bar> \<le> 1 / 20000" unfolding v_def by (rule py_round_4_near)
  have v0: "0 \<le> v" and v1: "v \<le> 1"
    unfolding v_def using r0 r1 by (rule py_round_4_unit)+
  let ?r = "success_report version (nrows df) (Some rate) (py_int ((t - s) * 1000)) seed"
  have m0: "main env args s t =
     (case open_for_writing env (arg_output args) of
        Some e \<Rightarrow> error_exit env args (Some cfg) e []
      | None \<Rightarrow>
          (case json_dump ?r of
             (w, None) \<Rightarrow> \<lparr>exit_code = 0, writes = [w]\<rparr>
           | (w, Some e) \<Rightarrow> error_exit env args (Some cfg) e [w]))"
    using main_computed [OF computed, of s t] unfolding df rate_eq .
  have op: "open_for_writing env (arg_output args) = None"
  proof (rule ccontr)
    assume "open_for_writing env (arg_output args) \<noteq> None"
    then have "exit_code (main env args s t) = 1"
      by (auto simp: m0 exit_code_error_exit)
    with assms(1) show False by simp
  qed
  have m: "main env args s t =
     (case json_dump ?r of
        (w, None) \<Rightarrow> \<lparr>exit_code = 0, writes = [w]\<rparr>
      | (w, Some e) \<Rightarrow> error_exit env args (Some cfg) e [w])"
    by (simp add: m0 op)
  have ser: "json_serializable version \<and> json_serializable seed"
  proof (rule ccontr)
    assume "\<not> ?thesis"
    then have "exit_code (main env args s t) = 1"
      by (simp add: m json_dump_success_report exit_code_error_exit)
    with assms(1) show False by simp
  qed
  then have wr: "writes (main env args s t) = [Complete ?r]"
    by (simp add: m json_dump_success_report)
  have rows: "map_of ?r ''rows_processed'' = Some (PInt (int (nrows df)))"
    by (simp add: success_report_def)
  have val: "map_of ?r ''value'' = Some (PFloat (Some v))"
    by (simp add: success_report_def py_round_def v_def)
  have sgcol: "df_getitem df2 ''signal'' = Inr (Int64 ?sg)"
    unfolding df2 using c by (rule computed_frame_columns)
  have run': "signal_computer df window = Inr (df2, Some rate)"
    using run rate_eq by simp
  have grid: "\<exists>k::int. v = of_int k / 10 ^ 4" unfolding v_def by (rule exI) (rule refl)
  from computed(2,4) run' sgcol lsg rate_def r0 r1 wr rows val grid near v0 v1
  show ?thesis by blast
qed

text \<open>
  The run on the closes 2, 4, 8, 2 with window 2: two signals in four rows, reported
  as 1/2.
\<close>

theorem signal_rate_in_report_witness:
  "\<exists>r. writes (main demo_env (demo_args ''config.yaml'' ''data.csv'') 0 (3 / 2)) = [Complete r] \<and>
       map_of r ''rows_processed'' = Some (PInt 4) \<and>
       map_of r ''value'' = Some (PFloat (Some (1 / 2)))"
proof -
  let ?a = "demo_args ''config.yaml'' ''data.csv''"
  have e: "exit_code (main demo_env ?a 0 (3 / 2)) = 0"
    by code_simp
  have d: "load_data demo_env (arg_input ?a) = Inr demo_frame"
    by code_simp
  have wf: "wf_dataframe demo_frame"
    by (simp add: wf_dataframe_def demo_frame_def)
  have c: "load_config demo_env (arg_config ?a) = Inr (demo_config 2 (PStr ''v1''))"
    by code_simp
  have g: "py_getitem (demo_config 2 (PStr ''v1'')) ''window'' = Inr (PInt 2)"
    by (simp add: py_getitem_def demo_config_def)
  have run: "signal_computer demo_frame (PInt 2) =
     Inr (\<lparr>nrows = 4,
           columns = [(''volume'', Int64 [10, 20, 30, 40]),
                      (''close'', Float64 [Some 2, Some 4, Some 8, Some 2]),
                      (''rolling_mean'', Float64 [None, Some 3, Some 6, Some 5]),
                      (''signal'', Int64 [0, 1, 1, 0])]\<rparr>,
          Some (1 / 2))"
    by code_simp
  from signal_rate_in_report [OF e d wf] obtain cfg window df2 sg rate v r where
    cfg: "load_config demo_env (arg_config ?a) = Inr cfg"
    and window: "py_getitem cfg ''window'' = Inr window"
    and comp: "signal_computer demo_frame window = Inr (df2, Some rate)"
    and wr: "writes (main demo_env ?a 0 (3 / 2)) = [Complete r]"
    and rows: "map_of r ''rows_processed'' = Some (PInt (int (nrows demo_frame)))"
    and val: "map_of r ''value'' = Some (PFloat (Some v))"
    and grid: "\<exists>k::int. v = of_int k / 10 ^ 4"
    and near: "\<bar>v - rate\<bar> \<le> 1 / 20000"
    by blast
  from cfg c have "cfg = demo_config 2 (PStr ''v1'')" by simp
  with window g have "window = PInt 2" by simp
  with comp run have rate: "rate = 1 / 2" by simp
  from grid obtain k :: int where k: "v = of_int k / 10 ^ 4" ..
  from near have "of_int k / (10 ^ 4 :: rat) \<le> 1 / 2 + 1 / 20000"
    and "1 / 2 - 1 / 20000 \<le> of_int k / (10 ^ 4 :: rat)"
    unfolding rate k by linarith+
  then have "(of_int k :: rat) \<le> 5000 + 1 / 2" and "5000 - 1 / 2 \<le> (of_int k :: rat)"
    by (simp_all add: field_simps)
  then have "(4999::rat) < of_int k" and "of_int k < (5001::rat)"
    by linarith+
  then have "4999 < k" and "k < 5001" by simp_all
  then have "k = 5000" by simp
  with k have "v = 1 / 2" by simp
  moreover have "int (nrows demo_frame) = 4" by (simp add: demo_frame_def)
  ultimately show ?thesis using wr rows val by simp
qed

subsection \<open>C5: the contract of the configuration loader\<close>

text \<open>
  Claim C5, amended. \<^verbatim>\<open>load_config\<close> fails with
  \<^verbatim>\<open>FileNotFoundError("Configuration file not found")\<close> when no file is at the path, and
  a \<^verbatim>\<open>FileNotFoundError\<close> of \<^verbatim>\<open>load_config\<close> comes from there or from the parser. When the
  file is there and the YAML parser raises, \<^verbatim>\<open>load_config\<close> fails with that very
  exception, whatever its class. When the text parses to a mapping, it fails with
  \<^verbatim>\<open>ValueError("Invalid configuration file structure")\<close> exactly when one of \<^verbatim>\<open>seed\<close>,
  \<^verbatim>\<open>window\<close>, \<^verbatim>\<open>version\<close> is not a key of it, and returns the mapping unchanged
  otherwise. It only reads: it is a function of the files and the parser. What becomes
  of a document that parses to something else than a mapping is not part of the
  statement.
\<close>

theorem load_config_contract:
  "(files env p = None \<longrightarrow>
      load_config env p = Inl (FileNotFoundError, ''Configuration file not found'')) \<and>
   (load_config env p = Inl (FileNotFoundError, msg) \<longrightarrow>
      files env p = None \<or>
      (\<exists>text. files env p = Some text \<and> yaml_safe_load env text = Inl (FileNotFoundError, msg))) \<and>
   (files env p = Some text \<longrightarrow> yaml_safe_load env text = Inl e \<longrightarrow> load_config env p = Inl e) \<and>
   (files env p = Some text \<longrightarrow> yaml_safe_load env text = Inr (PDict kvs) \<longrightarrow>
      load_config env p =
        (if \<exists>k\<in>set [''seed'', ''window'', ''version'']. map_of kvs k = None
         then Inl (ValueError, ''Invalid configuration file structure'')
         else Inr (PDict kvs)))"
proof (intro conjI impI)
  assume "files env p = None"
  then show "load_config env p = Inl (FileNotFoundError, ''Configuration file not found'')"
    by (simp add: load_config_def)
next
  assume "load_config env p = Inl (FileNotFoundError, msg)"
  then show "files env p = None \<or>
      (\<exists>text. files env p = Some text \<and> yaml_safe_load env text = Inl (FileNotFoundError, msg))"
    by (auto simp: load_config_def split: option.splits sum.splits dest: check_required_class)
next
  assume "files env p = Some text" and "yaml_safe_load env text = Inl e"
  then show "load_config env p = Inl e"
    by (simp add: load_config_def)
next
  assume "files env p = Some text" and "yaml_safe_load env text = Inr (PDict kvs)"
  then have l: "load_config env p =
        (if \<exists>k\<in>set required_keys. map_of kvs k = None
         then Inl (ValueError, ''Invalid configuration file structure'')
         else Inr (PDict kvs))"
    by (simp add: load_config_def check_required_dict)
  show "load_config env p =
        (if \<exists>k\<in>set [''seed'', ''window'', ''version'']. map_of kvs k = None
         then Inl (ValueError, ''Invalid configuration file structure'')
         else Inr (PDict kvs))"
    unfolding l by (simp add: required_keys_def)
qed

text \<open>
  A path with no file, a file whose version is an impossible date, and a file holding
  the three keys.
\<close>

theorem load_config_contract_witness:
  "load_config demo_env ''missing.yaml'' = Inl (FileNotFoundError, ''Configuration file not found'') \<and>
   load_config demo_env ''baddate.yaml'' = Inl (ValueError, ''month must be in 1..12'') \<and>
   load_config demo_env ''config.yaml'' = Inr (demo_config 2 (PStr ''v1''))"
proof -
  have f0: "files demo_env ''missing.yaml'' = None"
    by (simp add: demo_env_def demo_files_def)
  have f1: "files demo_env ''baddate.yaml'' = Some ''{seed: 42, window: 2, version: 2024-13-45}''"
    by (simp add: demo_env_def demo_files_def)
  have y1: "yaml_safe_load demo_env ''{seed: 42, window: 2, version: 2024-13-45}''
              = Inl (ValueError, ''month must be in 1..12'')"
    by (simp add: demo_env_def demo_yaml_def)
  have f: "files demo_env ''config.yaml'' = Some ''{seed: 42, window: 2, version: v1}''"
    by (simp add: demo_env_def demo_files_def)
  have y: "yaml_safe_load demo_env ''{seed: 42, window: 2, version: v1}''
             = Inr (PDict [(''seed'', PInt 42), (''window'', PInt 2), (''version'', PStr ''v1'')])"
    by (simp add: demo_env_def demo_yaml_def demo_config_def)
  note a = load_config_contract [THEN conjunct1, THEN mp, OF f0]
  note b = load_config_contract [THEN conjunct2, THEN conjunct2, THEN conjunct1, THEN mp, OF f1,
      THEN mp, OF y1]
  note c = load_config_contract [THEN conjunct2, THEN conjunct2, THEN conjunct2, THEN mp, OF f,
      THEN mp, OF y]
  from c have "load_config demo_env ''config.yaml''
      = Inr (PDict [(''seed'', PInt 42), (''window'', PInt 2), (''version'', PStr ''v1'')])"
    by simp
  with a b show ?thesis by (simp add: demo_config_def)
qed

text \<open>
  Claim C5 as stated fails on three documents. The empty document parses to \<^verbatim>\<open>None\<close>: none
  of the keys is there, and the failure is a \<^verbatim>\<open>TypeError\<close>. The sequence of the three
  names has none of them as a key either, and is returned as the configuration. The
  version 2024-13-45 makes the parser raise a plain \<^verbatim>\<open>ValueError\<close>, the class of the
  validation failures, for a document that cannot be parsed.
\<close>

theorem load_config_null_document_counterexample:
  "files demo_env ''empty.yaml'' = Some [] \<and>
   yaml_safe_load demo_env [] = Inr PNone \<and>
   load_config demo_env ''empty.yaml'' =
     Inl (TypeError, ''argument of type '' @ quoted ''NoneType'' @ '' is not iterable'') \<and>
   load_config demo_env ''list.yaml'' = Inr (PList [PStr ''seed'', PStr ''window'', PStr ''version'']) \<and>
   load_config demo_env ''baddate.yaml'' = Inl (ValueError, ''month must be in 1..12'')"
  by code_simp

subsection \<open>C6: the version field of the error report\<close>

text \<open>
  Claim C6, amended. When \<^verbatim>\<open>load_config\<close> raises, or when the configuration was loaded
  and read and then \<^verbatim>\<open>load_data\<close> or the signal computation raises, the process exits
  with code 1. If moreover the log file and the output path can be opened for writing:
  in the first case the run writes, once and completely, the error report with version
  \<^verbatim>\<open>unknown\<close> and status \<^verbatim>\<open>error\<close>; in the second case, when the version of the
  configuration is a value JSON has, it writes, once and completely, the error report
  with that version and status \<^verbatim>\<open>error\<close>.
\<close>

theorem error_report_version:
  "((load_config env (arg_config args) = Inl e \<or>
     (load_config env (arg_config args) = Inr cfg \<and>
      py_getitem cfg ''seed'' = Inr seed \<and>
      py_getitem cfg ''window'' = Inr window \<and>
      py_getitem cfg ''version'' = Inr version \<and>
      np_random_seed env seed = None \<and>
      (load_data env (arg_input args) = Inl e \<or>
       (\<exists>df. load_data env (arg_input args) = Inr df \<and> signal_computer df window = Inl e)))) \<longrightarrow>
      exit_code (main env args s t) = 1) \<and>
   (open_for_writing env (arg_log_file args) = None \<longrightarrow>
    open_for_writing env (arg_output args) = None \<longrightarrow>
    load_config env (arg_config args) = Inl e \<longrightarrow>
      main env args s t =
        \<lparr>exit_code = 1,
         writes = [Complete [(''version'', PStr ''unknown''), (''status'', PStr ''error''),
                             (''error_message'', PStr (snd e))]]\<rparr>) \<and>
   (open_for_writing env (arg_log_file args) = None \<longrightarrow>
    open_for_writing env (arg_output args) = None \<longrightarrow>
    load_config env (arg_config args) = Inr cfg \<longrightarrow>
    py_getitem cfg ''seed'' = Inr seed \<longrightarrow>
    py_getitem cfg ''window'' = Inr window \<longrightarrow>
    py_getitem cfg ''version'' = Inr version \<longrightarrow>
    np_random_seed env seed = None \<longrightarrow>
    json_serializable version \<longrightarrow>
    (load_data env (arg_input args) = Inl e \<or>
     (\<exists>df. load_data env (arg_input args) = Inr df \<and> signal_computer df window = Inl e)) \<longrightarrow>
      main env args s t =
        \<lparr>exit_code = 1,
         writes = [Complete [(''version'', version), (''status'', PStr ''error''),
                             (''error_message'', PStr (snd e))]]\<rparr>)"
proof (intro conjI impI)
  assume fault: "load_config env (arg_config args) = Inl e \<or>
     (load_config env (arg_config args) = Inr cfg \<and>
      py_getitem cfg ''seed'' = Inr seed \<and>
      py_getitem cfg ''window'' = Inr window \<and>
      py_getitem cfg ''version'' = Inr version \<and>
      np_random_seed env seed = None \<and>
      (load_data env (arg_input args) = Inl e \<or>
       (\<exists>df. load_data env (arg_input args) = Inr df \<and> signal_computer df window = Inl e)))"
  show "exit_code (main env args s t) = 1"
  proof (cases rule: main_cases [where env = env and args = args])
    case (log_fault e')
    then show ?thesis by (simp add: main_log_fault)
  next
    case (config_fault e')
    then show ?thesis by (simp add: main_config_fault exit_code_error_exit)
  next
    case (later_fault cfg' e')
    then show ?thesis by (simp add: exit_code_error_exit)
  next
    case (computed cfg' seed' window' version' df' df2 rate)
    with fault show ?thesis by auto
  qed
next
  assume "open_for_writing env (arg_log_file args) = None"
    and "open_for_writing env (arg_output args) = None"
    and "load_config env (arg_config args) = Inl e"
  then show "main env args s t =
        \<lparr>exit_code = 1,
         writes = [Complete [(''version'', PStr ''unknown''), (''status'', PStr ''error''),
                             (''error_message'', PStr (snd e))]]\<rparr>"
    by (simp add: main_config_fault error_exit_unbound error_report_def)
next
  assume lg: "open_for_writing env (arg_log_file args) = None"
    and op: "open_for_writing env (arg_output args) = None"
    and cfg: "load_config env (arg_config args) = Inr cfg"
    and sd: "py_getitem cfg ''seed'' = Inr seed"
    and wd: "py_getitem cfg ''window'' = Inr window"
    and vs: "py_getitem cfg ''version'' = Inr version"
    and ok: "np_random_seed env seed = None"
    and js: "json_serializable version"
    and fault: "load_data env (arg_input args) = Inl e \<or>
       (\<exists>df. load_data env (arg_input args) = Inr df \<and> signal_computer df window = Inl e)"
  from fault have "main env args s t = error_exit env args (Some cfg) e []"
  proof
    assume "load_data env (arg_input args) = Inl e"
    with lg cfg sd wd vs ok show ?thesis by (rule main_data_fault)
  next
    assume "\<exists>df. load_data env (arg_input args) = Inr df \<and> signal_computer df window = Inl e"
    then obtain df where "load_data env (arg_input args) = Inr df"
      and "signal_computer df window = Inl e" by blast
    with lg cfg sd wd vs ok show ?thesis by (rule main_signal_fault)
  qed
  with vs op js show "main env args s t =
        \<lparr>exit_code = 1,
         writes = [Complete [(''version'', version), (''status'', PStr ''error''),
                             (''error_message'', PStr (snd e))]]\<rparr>"
    by (simp add: error_exit_bound json_dump_def error_report_def)
qed

text \<open>
  Three runs: no configuration file, no input file, and a negative window.
\<close>

theorem error_report_version_witness:
  "main demo_env (demo_args ''missing.yaml'' ''data.csv'') 0 (3 / 2) =
     \<lparr>exit_code = 1,
      writes = [Complete [(''version'', PStr ''unknown''), (''status'', PStr ''error''),
                          (''error_message'', PStr ''Configuration file not found'')]]\<rparr> \<and>
   main demo_env (demo_args ''config.yaml'' ''nope.csv'') 0 (3 / 2) =
     \<lparr>exit_code = 1,
      writes = [Complete [(''version'', PStr ''v1''), (''status'', PStr ''error''),
                          (''error_message'', PStr ''Input CSV file not found'')]]\<rparr> \<and>
   main demo_env (demo_args ''negative.yaml'' ''data.csv'') 0 (3 / 2) =
     \<lparr>exit_code = 1,
      writes = [Complete [(''version'', PStr ''v1''), (''status'', PStr ''error''),
                          (''error_message'', PStr ''window must be an integer 0 or greater'')]]\<rparr>"
proof -
  let ?a1 = "demo_args ''missing.yaml'' ''data.csv''"
  let ?a2 = "demo_args ''config.yaml'' ''nope.csv''"
  let ?a3 = "demo_args ''negative.yaml'' ''data.csv''"
  have lg: "open_for_writing demo_env (arg_log_file (demo_args c i)) = None"
    and op: "open_for_writing demo_env (arg_output (demo_args c i)) = None" for c i
    by (simp_all add: demo_env_def demo_args_def demo_open_def)
  have c1: "load_config demo_env (arg_config ?a1) = Inl (FileNotFoundError, ''Configuration file not found'')"
    by code_simp
  note r1 = error_report_version [THEN conjunct2, THEN conjunct1, rule_format, OF lg op c1,
      of 0 "3 / 2"]
  have c2: "load_config demo_env (arg_config ?a2) = Inr (demo_config 2 (PStr ''v1''))"
    by code_simp
  have g2: "py_getitem (demo_config 2 (PStr ''v1'')) ''seed'' = Inr (PInt 42)"
    "py_getitem (demo_config 2 (PStr ''v1'')) ''window'' = Inr (PInt 2)"
    "py_getitem (demo_config 2 (PStr ''v1'')) ''version'' = Inr (PStr ''v1'')"
    by (simp_all add: py_getitem_def demo_config_def)
  have s: "np_random_seed demo_env (PInt 42) = None"
    by (simp add: demo_env_def demo_seed_def)
  have j: "json_serializable (PStr ''v1'')" by simp
  have d2: "load_data demo_env (arg_input ?a2) = Inl (FileNotFoundError, ''Input CSV file not found'')"
    by code_simp
  note r2 = error_report_version [THEN conjunct2, THEN conjunct2, rule_format,
      OF lg op c2 g2 s j disjI1 [OF d2], of 0 "3 / 2"]
  have c3: "load_config demo_env (arg_config ?a3) = Inr (demo_config (- 1) (PStr ''v1''))"
    by code_simp
  have g3: "py_getitem (demo_config (- 1) (PStr ''v1'')) ''seed'' = Inr (PInt 42)"
    "py_getitem (demo_config (- 1) (PStr ''v1'')) ''window'' = Inr (PInt (- 1))"
    "py_getitem (demo_config (- 1) (PStr ''v1'')) ''version'' = Inr (PStr ''v1'')"
    by (simp_all add: py_getitem_def demo_config_def)
  have d3: "load_data demo_env (arg_input ?a3) = Inr demo_frame"
    by code_simp
  have e3: "signal_computer demo_frame (PInt (- 1)) = Inl (ValueError, ''window must be an integer 0 or greater'')"
    by code_simp
  have f3: "\<exists>df. load_data demo_env (arg_input ?a3) = Inr df \<and>
      signal_computer df (PInt (- 1)) = Inl (ValueError, ''window must be an integer 0 or greater'')"
    using d3 e3 by blast
  note r3 = error_report_version [THEN conjunct2, THEN conjunct2, rule_format,
      OF lg op c3 g3 s j disjI2 [OF f3], of 0 "3 / 2"]
  from r1 r2 r3 show ?thesis by simp
qed

text \<open>
  Claim C6 as stated fails in two ways. With a version that is a date and no input file,
  the dump of the error report stops at the version: the document in the file has no
  status. With an output path in a directory that does not exist and no configuration
  file, \<^verbatim>\<open>open\<close> raises inside the \<^verbatim>\<open>except\<close> block and no report is written at all.
\<close>

theorem error_report_missing_counterexample:
  "main demo_env (demo_args ''dated.yaml'' ''nope.csv'') 0 (3 / 2) =
     \<lparr>exit_code = 1,
      writes = [Partial [(''version'', PDate ''2024-01-01''), (''status'', PStr ''error''),
                         (''error_message'', PStr ''Input CSV file not found'')]]\<rparr> \<and>
   main demo_env ((demo_args ''missing.yaml'' ''data.csv'')\<lparr>arg_output := ''missing_dir/metrics.json''\<rparr>)
     0 (3 / 2) = \<lparr>exit_code = 1, writes = []\<rparr>"
  by code_simp

subsection \<open>C7: a window larger than the table\<close>

text \<open>
  Claim C7, amended. For a table with a numeric, non-empty \<^verbatim>\<open>close\<close> column and a window
  larger than the number of rows and below \<open>2\<^sup>6\<^sup>3\<close>, the computation raises nothing: every
  rolling mean is missing, every signal is 0, the signal rate is 0, and 0 is what its
  rounding reports.
\<close>

theorem window_larger_than_table:
  assumes "df_getitem df ''close'' = Inr c" and "prep_values c = Inr cl" and "cl \<noteq> []"
    and "int (length cl) < w" and "w < 2 ^ 63"
  shows "\<exists>df2.
           signal_computer df (PInt w) = Inr (df2, Some 0) \<and>
           df_getitem df2 ''rolling_mean'' = Inr (Float64 (replicate (length cl) None)) \<and>
           df_getitem df2 ''signal'' = Inr (Int64 (replicate (length cl) 0)) \<and>
           py_round (Some 0) 4 = Some 0"
proof -
  from assms(4) have "0 \<le> w" and "w = 0 \<or> int (length cl) < w" by simp_all
  with assms(1-3) assms(5) have "signal_computer df (PInt w) =
      Inr (computed_frame df (replicate (length cl) None) (replicate (length cl) 0), Some 0)"
    by (intro signal_computer_all_missing)
  moreover have "py_round (Some 0) 4 = Some 0"
    by (simp add: py_round_def round_half_even_def)
  ultimately show ?thesis
    using computed_frame_columns(2,3) [OF assms(1)] by blast
qed

text \<open>
  Window 5 on four rows.
\<close>

theorem window_larger_than_table_witness:
  "\<exists>df2.
     signal_computer demo_frame (PInt 5) = Inr (df2, Some 0) \<and>
     df_getitem df2 ''rolling_mean'' = Inr (Float64 [None, None, None, None]) \<and>
     df_getitem df2 ''signal'' = Inr (Int64 [0, 0, 0, 0])"
proof -
  have c: "df_getitem demo_frame ''close'' = Inr (Float64 [Some 2, Some 4, Some 8, Some 2])"
    by (simp add: df_getitem_def demo_frame_def)
  have p: "prep_values (Float64 [Some 2, Some 4, Some 8, Some 2]) = Inr [Some 2, Some 4, Some 8, Some 2]"
    by simp
  have n: "[Some 2, Some 4, Some 8, Some (2::rat)] \<noteq> []" by simp
  have w: "int (length [Some 2, Some 4, Some 8, Some (2::rat)]) < 5" by simp
  have b: "(5::int) < 2 ^ 63" by simp
  from window_larger_than_table [OF c p n w b] obtain df2 where
    "signal_computer demo_frame (PInt 5) = Inr (df2, Some 0)"
    and "df_getitem df2 ''rolling_mean''
           = Inr (Float64 (replicate (length [Some 2, Some 4, Some 8, Some (2::rat)]) None))"
    and "df_getitem df2 ''signal''
           = Inr (Int64 (replicate (length [Some 2, Some 4, Some 8, Some (2::rat)]) 0))"
    by blast
  then show ?thesis by simp
qed

text \<open>
  Claim C7 as stated fails at the window \<open>2\<^sup>6\<^sup>3\<close>, which the validation lets through: the
  bounds of the windows overflow, the computation raises \<^verbatim>\<open>OverflowError\<close> and the run
  ends with exit code 1.
\<close>

theorem huge_window_counterexample:
  "raised (signal_computer demo_frame (PInt 9223372036854775808)) = Some OverflowError \<and>
   main demo_env (demo_args ''huge.yaml'' ''data.csv'') 0 (3 / 2) =
     \<lparr>exit_code = 1,
      writes = [Complete [(''version'', PStr ''v1''), (''status'', PStr ''error''),
                          (''error_message'',
                           PStr ''Python integer 9223372036854775808 out of bounds for int64'')]]\<rparr>"
  by code_simp

subsection \<open>C8: two runs on the same files\<close>

text \<open>
  Claim C8. Two runs on the same files and arguments can differ only in what their
  clocks read. Whatever the clocks read, both end with the same exit code and write the
  same documents up to the field \<^verbatim>\<open>latency_ms\<close>; in particular \<^verbatim>\<open>value\<close> and
  \<^verbatim>\<open>rows_processed\<close> agree.
\<close>

theorem report_independent_of_clock:
  "exit_code (main env args s1 t1) = exit_code (main env args s2 t2) \<and>
   map drop_latency (writes (main env args s1 t1)) = map drop_latency (writes (main env args s2 t2)) \<and>
   map (\<lambda>w. map_of (report_of w) ''value'') (writes (main env args s1 t1))
     = map (\<lambda>w. map_of (report_of w) ''value'') (writes (main env args s2 t2)) \<and>
   map (\<lambda>w. map_of (report_of w) ''rows_processed'') (writes (main env args s1 t1))
     = map (\<lambda>w. map_of (report_of w) ''rows_processed'') (writes (main env args s2 t2))"
proof -
  have field: "map_of (report_of w) k = map_of (report_of (drop_latency w)) k"
    if "k \<noteq> ''latency_ms''" for w k
    using that by (cases w) (simp_all add: delete_conv')
  have fields: "map (\<lambda>w. map_of (report_of w) k) ws
                  = map (\<lambda>w. map_of (report_of w) k) (map drop_latency ws)"
    if "k \<noteq> ''latency_ms''" for ws k
    using field [OF that] by (induction ws) simp_all
  have same: "map (\<lambda>w. map_of (report_of w) k) ws1 = map (\<lambda>w. map_of (report_of w) k) ws2"
    if k: "k \<noteq> ''latency_ms''" and eq: "map drop_latency ws1 = map drop_latency ws2"
    for ws1 ws2 k
  proof -
    have "map (\<lambda>w. map_of (report_of w) k) ws1
            = map (\<lambda>w. map_of (report_of w) k) (map drop_latency ws1)"
      using k by (rule fields)
    also have "\<dots> = map (\<lambda>w. map_of (report_of w) k) (map drop_latency ws2)"
      by (simp only: eq)
    also have "\<dots> = map (\<lambda>w. map_of (report_of w) k) ws2"
      using k by (rule fields [symmetric])
    finally show ?thesis .
  qed
  from main_clock_free [of env args s1 t1 s2 t2]
  have e: "exit_code (main env args s1 t1) = exit_code (main env args s2 t2)"
    and d: "map drop_latency (writes (main env args s1 t1))
              = map drop_latency (writes (main env args s2 t2))"
    by simp_all
  have v: "''value'' \<noteq> ''latency_ms''" and r: "''rows_processed'' \<noteq> ''latency_ms''"
    by simp_all
  from e d same [OF v d] same [OF r d] show ?thesis by (intro conjI)
qed

text \<open>
  A run of a second and a half against a run of ten seconds.
\<close>

theorem report_independent_of_clock_witness:
  "exit_code (main demo_env (demo_args ''config.yaml'' ''data.csv'') 0 (3 / 2))
     = exit_code (main demo_env (demo_args ''config.yaml'' ''data.csv'') 10 20) \<and>
   map drop_latency (writes (main demo_env (demo_args ''config.yaml'' ''data.csv'') 0 (3 / 2)))
     = map drop_latency (writes (main demo_env (demo_args ''config.yaml'' ''data.csv'') 10 20))"
  using report_independent_of_clock [of demo_env "demo_args ''config.yaml'' ''data.csv''" 0 "3 / 2" 10 20]
  by simp

subsection \<open>C9: one report per run\<close>

text \<open>
  Claim C9, amended. If the log file and the output path can be opened for writing, and
  the configuration fails to load or loads as a mapping whose \<^verbatim>\<open>version\<close> and \<^verbatim>\<open>seed\<close> are
  values JSON has, the run writes the output file exactly once, a complete document:
  the success report with exit code 0, or the error report with exit code 1.
\<close>

theorem report_written_once:
  assumes "open_for_writing env (arg_log_file args) = None"
    and "open_for_writing env (arg_output args) = None"
    and "\<forall>cfg. load_config env (arg_config args) = Inr cfg \<longrightarrow> config_reportable cfg"
  shows "\<exists>r. writes (main env args s t) = [Complete r] \<and>
             (exit_code (main env args s t) = 0 \<and> map_of r ''status'' = Some (PStr ''success'') \<or>
              exit_code (main env args s t) = 1 \<and> map_of r ''status'' = Some (PStr ''error''))"
proof (cases rule: main_cases [where env = env and args = args])
  case (log_fault e)
  with assms(1) show ?thesis by simp
next
  case (config_fault e)
  with assms(2) show ?thesis
    by (simp add: main_config_fault error_exit_unbound error_report_def)
next
  case (later_fault cfg e)
  with assms(3) have "config_reportable cfg" by simp
  then obtain v where "py_getitem cfg ''version'' = Inr v" and "json_serializable v"
    by (rule config_reportable_version)
  with assms(2) show ?thesis
    by (simp add: later_fault(3) error_exit_bound json_dump_def error_report_def)
next
  case (computed cfg seed window version df df2 rate)
  with assms(3) have ok: "config_reportable cfg" by simp
  then obtain v where "py_getitem cfg ''version'' = Inr v" and "json_serializable v"
    by (rule config_reportable_version)
  with computed(5) have "json_serializable version" by simp
  moreover from ok computed(3) have "json_serializable seed"
    by (rule config_reportable_seed)
  ultimately show ?thesis using assms(2)
    by (simp add: main_computed [OF computed] json_dump_def success_report_def)
qed

text \<open>
  The run on the closes 2, 4, 8, 2 writes the success report, once.
\<close>

theorem report_written_once_witness:
  "\<exists>r. writes (main demo_env (demo_args ''config.yaml'' ''data.csv'') 0 (3 / 2)) = [Complete r] \<and>
       exit_code (main demo_env (demo_args ''config.yaml'' ''data.csv'') 0 (3 / 2)) = 0 \<and>
       map_of r ''status'' = Some (PStr ''success'')"
proof -
  let ?a = "demo_args ''config.yaml'' ''data.csv''"
  have lg: "open_for_writing demo_env (arg_log_file ?a) = None"
    and op: "open_for_writing demo_env (arg_output ?a) = None"
    by (simp_all add: demo_env_def demo_args_def demo_open_def)
  have c: "load_config demo_env (arg_config ?a) = Inr (demo_config 2 (PStr ''v1''))"
    by code_simp
  have r: "config_reportable (demo_config 2 (PStr ''v1''))"
    by (simp add: config_reportable_def demo_config_def)
  have h: "\<forall>cfg. load_config demo_env (arg_config ?a) = Inr cfg \<longrightarrow> config_reportable cfg"
    using r by (simp add: c)
  have e: "exit_code (main demo_env ?a 0 (3 / 2)) = 0"
    by code_simp
  from report_written_once [OF lg op h, of 0 "3 / 2"] e show ?thesis
    by auto
qed

text \<open>
  Claim C9 as stated fails in three ways. A configuration that is the sequence of the
  three names passes the loader; reading \<^verbatim>\<open>config["seed"]\<close> raises, and so does
  \<^verbatim>\<open>config["version"]\<close> inside the \<^verbatim>\<open>except\<close> block: nothing is written. A version that is
  a date stops the dump of the success report midway, and then the dump of the error
  report: two writes, both incomplete. An output path in a directory that does not
  exist makes \<^verbatim>\<open>open\<close> raise at line 108 and again at line 126: nothing is written.
\<close>

theorem report_not_written_counterexample:
  "main demo_env (demo_args ''list.yaml'' ''data.csv'') 0 (3 / 2) = \<lparr>exit_code = 1, writes = []\<rparr> \<and>
   main demo_env (demo_args ''dated.yaml'' ''data.csv'') 0 (3 / 2) =
     \<lparr>exit_code = 1,
      writes =
        [Partial [(''version'', PDate ''2024-01-01''), (''rows_processed'', PInt 4),
                  (''metric'', PStr ''signal_rate''), (''value'', PFloat (Some (1 / 2))),
                  (''latency_ms'', PInt 1500), (''seed'', PInt 42), (''status'', PStr ''success'')],
         Partial [(''version'', PDate ''2024-01-01''), (''status'', PStr ''error''),
                  (''error_message'', PStr ''Object of type date is not JSON serializable'')]]\<rparr> \<and>
   main demo_env ((demo_args ''config.yaml'' ''data.csv'')\<lparr>arg_output := ''missing_dir/metrics.json''\<rparr>)
     0 (3 / 2) = \<lparr>exit_code = 1, writes = []\<rparr>"
  by code_simp

subsection \<open>C10: the empty table is rejected first\<close>

text \<open>
  Claim C10. In \<^verbatim>\<open>load_data\<close> a parsed table with no rows fails with
  \<^verbatim>\<open>ValueError("Input file is empty")\<close>, with or without a \<^verbatim>\<open>close\<close> column; and the
  failure for the missing \<^verbatim>\<open>close\<close> column is raised only for a table that has rows.
\<close>

theorem load_data_empty_before_close:
  "(files env p = Some text \<longrightarrow> pd_read_csv env text = Some df \<longrightarrow> nrows df = 0 \<longrightarrow>
      load_data env p = Inl (ValueError, ''Input file is empty'')) \<and>
   (load_data env p = Inl (ValueError, ''Missing required column: close'') \<longrightarrow>
      (\<exists>text df. files env p = Some text \<and> pd_read_csv env text = Some df \<and>
                 0 < nrows df \<and> columns df \<noteq> [] \<and> map_of (columns df) ''close'' = None))"
  by (auto simp: load_data_def df_empty_def split: option.splits if_splits)

text \<open>
  A file with a header line only, and no \<^verbatim>\<open>close\<close> in it.
\<close>

theorem load_data_empty_before_close_witness:
  "map_of (columns header_frame) ''close'' = None \<and>
   load_data demo_env ''header.csv'' = Inl (ValueError, ''Input file is empty'')"
proof -
  have f: "files demo_env ''header.csv'' = Some (unlines [''volume,open''])"
    by (simp add: demo_env_def demo_files_def)
  have r: "pd_read_csv demo_env (unlines [''volume,open'']) = Some header_frame"
    by (simp add: demo_env_def demo_csv_def unlines_def)
  have n: "nrows header_frame = 0" by (simp add: header_frame_def)
  from load_data_empty_before_close [of demo_env "''header.csv''" "unlines [''volume,open'']" header_frame]
    f r n
  show ?thesis by (simp add: header_frame_def)
qed

end
